theory Spec2Isabelle
  imports Main
begin

section \<open>Python library functions used by the runner\<close>

text \<open>
  Strings are ASCII byte strings. Python integers are unbounded, hence \<open>int\<close>.
  An exception is a value of \<open>py_error\<close>; a fallible function returns
  \<open>py_error + 'a\<close> with \<open>Inl\<close> the raised exception.
\<close>

datatype py_error =
    ValueError string   \<comment> \<open>the text that \<open>int()\<close> / \<open>float()\<close> / \<open>max()\<close> could not handle\<close>
  | IndexError
  | OtherException string

text \<open>Sequencing of two fallible computations: an exception raised by the first one
  propagates.\<close>

definition err_bind :: "(py_error + 'a) \<Rightarrow> ('a \<Rightarrow> py_error + 'b) \<Rightarrow> py_error + 'b" where
  "err_bind m f = (case m of Inl e \<Rightarrow> Inl e | Inr x \<Rightarrow> f x)"

type_synonym point = "int \<times> int"
type_synonym path = "point list"

text \<open>\<open>str.isspace\<close> on ASCII: TAB, LF, VT, FF, CR, FS, GS, RS, US and SPACE.\<close>

definition py_isspace :: "char \<Rightarrow> bool" where
  "py_isspace c = (let n = (of_char c :: nat) in (9 \<le> n \<and> n \<le> 13) \<or> (28 \<le> n \<and> n \<le> 32))"

text \<open>\<open>s.strip()\<close>\<close>

definition strip :: "string \<Rightarrow> string" where
  "strip s = rev (dropWhile py_isspace (rev (dropWhile py_isspace s)))"

text \<open>\<open>s.split(sep)\<close> for a one-character separator: never returns the empty list. The
  first argument of the auxiliary function is the field being read, reversed.\<close>

fun split_sep_from :: "string \<Rightarrow> char \<Rightarrow> string \<Rightarrow> string list" where
  "split_sep_from w sep [] = [rev w]"
| "split_sep_from w sep (c # cs) =
     (if c = sep then rev w # split_sep_from [] sep cs else split_sep_from (c # w) sep cs)"

definition split_sep :: "char \<Rightarrow> string \<Rightarrow> string list" where
  "split_sep sep s = split_sep_from [] sep s"

text \<open>\<open>s.split()\<close>: split on runs of whitespace, no empty fields.\<close>

fun split_ws_from :: "string \<Rightarrow> string \<Rightarrow> string list" where
  "split_ws_from w [] = (if w = [] then [] else [rev w])"
| "split_ws_from w (c # cs) =
     (if py_isspace c then (if w = [] then split_ws_from [] cs else rev w # split_ws_from [] cs)
      else split_ws_from (c # w) cs)"

definition split_ws :: "string \<Rightarrow> string list" where
  "split_ws s = split_ws_from [] s"

text \<open>\<open>sub in s\<close>\<close>

fun contains :: "string \<Rightarrow> string \<Rightarrow> bool" where
  "contains sub [] = (sub = [])"
| "contains sub (c # cs) = (take (length sub) (c # cs) = sub \<or> contains sub cs)"

definition is_digit :: "char \<Rightarrow> bool" where
  "is_digit c = (let n = (of_char c :: nat) in 48 \<le> n \<and> n \<le> 57)"

definition digit_val :: "char \<Rightarrow> int" where
  "digit_val c = int (of_char c) - 48"

text \<open>The grammar \<open>digit (["_"] digit)*\<close> shared by \<open>int()\<close> and \<open>float()\<close>.\<close>

fun digitpart :: "string \<Rightarrow> bool" where
  "digitpart [] = False"
| "digitpart [c] = is_digit c"
| "digitpart (c # d # cs) =
     (is_digit c \<and> (if d = CHR ''_'' then digitpart cs else digitpart (d # cs)))"

definition digits_value :: "string \<Rightarrow> int" where
  "digits_value s = fold (\<lambda>c n. 10 * n + digit_val c) (filter is_digit s) 0"

definition drop_sign :: "string \<Rightarrow> bool \<times> string" where
  "drop_sign s = (case s of
       [] \<Rightarrow> (False, [])
     | c # cs \<Rightarrow> if c = CHR ''-'' then (True, cs) else if c = CHR ''+'' then (False, cs) else (False, s))"

text \<open>The whitespace that \<open>int()\<close> and \<open>float()\<close> skip at both ends of an ASCII string: TAB,
  LF, VT, FF, CR and SPACE only (the interpreter's \<open>Py_ISSPACE\<close>), not the separators FS, GS,
  RS, US that \<open>str.strip\<close> removes.\<close>

definition c_isspace :: "char \<Rightarrow> bool" where
  "c_isspace c = (let n = (of_char c :: nat) in (9 \<le> n \<and> n \<le> 13) \<or> n = 32)"

definition c_strip :: "string \<Rightarrow> string" where
  "c_strip s = rev (dropWhile c_isspace (rev (dropWhile c_isspace s)))"

text \<open>The default of \<open>sys.get_int_max_str_digits()\<close>: \<open>int()\<close> raises \<open>ValueError\<close> for a
  literal with more digits.\<close>

definition int_max_str_digits :: nat where
  "int_max_str_digits = 4300"

text \<open>\<open>int(s)\<close> for a string, base 10: surrounding whitespace, an optional sign, digits with
  single underscores between them, and no more digits than the limit.\<close>

definition py_int :: "string \<Rightarrow> py_error + int" where
  "py_int s =
     (let (neg, body) = drop_sign (c_strip s)
      in if digitpart body \<and> length (filter is_digit body) \<le> int_max_str_digits
         then Inr (if neg then - digits_value body else digits_value body)
         else Inl (ValueError s))"

definition to_lower :: "char \<Rightarrow> char" where
  "to_lower c = (let n = (of_char c :: nat) in if 65 \<le> n \<and> n \<le> 90 then char_of (n + 32) else c)"

text \<open>The mantissa \<open>[digitpart] "." digitpart | digitpart ["."]\<close>.\<close>

definition float_number :: "string \<Rightarrow> bool" where
  "float_number s =
     (let ip = takeWhile (\<lambda>c. c \<noteq> CHR ''.'') s; rest = dropWhile (\<lambda>c. c \<noteq> CHR ''.'') s
      in if rest = [] then digitpart ip
         else (let fp = tl rest
               in (ip = [] \<or> digitpart ip) \<and> (fp = [] \<or> digitpart fp) \<and> \<not> (ip = [] \<and> fp = [])))"

definition float_exponent :: "string \<Rightarrow> bool" where
  "float_exponent s = digitpart (snd (drop_sign s))"

definition is_e :: "char \<Rightarrow> bool" where
  "is_e c = (c = CHR ''e'' \<or> c = CHR ''E'')"

text \<open>\<open>float(s)\<close> for a string: the value is kept as the literal that was accepted (binary
  rounding is not modelled); what matters to the parser is whether \<open>float\<close> raises. The
  interpreter's bound of 1000000000 on the number of mantissa digits is not modelled.\<close>

definition py_float :: "string \<Rightarrow> py_error + string" where
  "py_float s =
     (let t = c_strip s; body = snd (drop_sign t); low = map to_lower body
      in if low = ''inf'' \<or> low = ''infinity'' \<or> low = ''nan'' then Inr t
         else (let m = takeWhile (\<lambda>c. \<not> is_e c) body; rest = dropWhile (\<lambda>c. \<not> is_e c) body
               in if float_number m \<and> (rest = [] \<or> float_exponent (tl rest)) then Inr t
                  else Inl (ValueError s)))"

text \<open>\<open>xs[i:j]\<close> with Python's treatment of negative and out-of-range bounds.\<close>

definition py_slice :: "'a list \<Rightarrow> int \<Rightarrow> int \<Rightarrow> 'a list" where
  "py_slice xs i j =
     (let n = int (length xs);
          clamp = (\<lambda>k. if k < 0 then max (k + n) 0 else min k n);
          lo = clamp i; hi = clamp j
      in take (nat (hi - lo)) (drop (nat lo) xs))"

section \<open>WaypointScenarioParser\<close>

record scenario =
  bucket :: int
  map_name :: string
  width :: int
  height :: int
  start :: point
  goal :: point
  optimal_length :: string
  num_waypoints :: int
  waypoints :: "point list"

text \<open>Lines 67-71: the coordinates are read two at a time; a last coordinate without a
  partner is never looked at.\<close>

fun parse_waypoints :: "string list \<Rightarrow> py_error + point list" where
  "parse_waypoints (a # b # rest) =
     err_bind (py_int a) (\<lambda>wp_x.
     err_bind (py_int b) (\<lambda>wp_y.
     err_bind (parse_waypoints rest) (\<lambda>wps. Inr ((wp_x, wp_y) # wps))))"
| "parse_waypoints _ = Inr []"

text \<open>Lines 52-84, the body of the \<open>try\<close>, on the tab-separated fields of a line that has at
  least ten of them.\<close>

definition parse_parts :: "string list \<Rightarrow> py_error + scenario" where
  "parse_parts parts =
     err_bind (py_int (parts ! 0)) (\<lambda>b.
     err_bind (py_int (parts ! 2)) (\<lambda>w.
     err_bind (py_int (parts ! 3)) (\<lambda>h.
     err_bind (py_int (parts ! 4)) (\<lambda>start_x.
     err_bind (py_int (parts ! 5)) (\<lambda>start_y.
     err_bind (py_int (parts ! 6)) (\<lambda>goal_x.
     err_bind (py_int (parts ! 7)) (\<lambda>goal_y.
     err_bind (py_float (parts ! 8)) (\<lambda>ol.
     err_bind (py_int (parts ! 9)) (\<lambda>nw.
     err_bind (if length parts > 10 then parse_waypoints (split_ws (parts ! 10)) else Inr [])
       (\<lambda>wps.
          Inr \<lparr>bucket = b, map_name = parts ! 1, width = w, height = h,
               start = (start_x, start_y), goal = (goal_x, goal_y),
               optimal_length = ol, num_waypoints = nw, waypoints = wps\<rparr>))))))))))"

text \<open>What one line of the file contributes: nothing (blank, or fewer than ten fields: the
  two \<open>continue\<close>s of lines 42-47), a warning (the \<open>except\<close> of lines 86-89), or an entry.\<close>

datatype printed = WarningLine string | ErrorLine py_error

datatype line_result = Skipped | Rejected string py_error | Parsed scenario

definition parse_line :: "string \<Rightarrow> line_result" where
  "parse_line l =
     (let line = strip l
      in if line = [] then Skipped
         else (let parts = split_sep (CHR 0x09) line
               in if length parts < 10 then Skipped
                  else (case parse_parts parts of
                          Inl e \<Rightarrow> Rejected line e
                        | Inr sc \<Rightarrow> Parsed sc)))"

text \<open>The loop of line 40 with its two outputs: the list \<open>scenarios\<close> and what was printed.\<close>

fun parse_lines :: "string list \<Rightarrow> scenario list \<times> printed list" where
  "parse_lines [] = ([], [])"
| "parse_lines (l # ls) =
     (case parse_line l of
        Skipped \<Rightarrow> parse_lines ls
      | Rejected line e \<Rightarrow> (fst (parse_lines ls), WarningLine line # ErrorLine e # snd (parse_lines ls))
      | Parsed sc \<Rightarrow> (sc # fst (parse_lines ls), snd (parse_lines ls)))"

text \<open>\<open>_parse_scenarios\<close>, from the result of \<open>readlines()\<close>: the version line is skipped.\<close>

definition parse_scenarios :: "string list \<Rightarrow> scenario list \<times> printed list" where
  "parse_scenarios lines = parse_lines (drop 1 lines)"

section \<open>WaypointEECBSRunner\<close>

subsection \<open>\<open>_run_eecbs\<close>\<close>

text \<open>What \<open>subprocess.run\<close> does: it returns (return code, stdout, stderr), or raises
  \<open>TimeoutExpired\<close>, or raises something else.\<close>

datatype proc_result = Completed int string string | TimeoutExpired | ProcRaised string

text \<open>The \<open>'error'\<close> messages of lines 168-211, each with the values its f-string holds.\<close>

datatype eecbs_error =
    FailedReturnCode int
  | NoOutput
  | DidNotSucceed string
  | TimedOut int
  | ErrorRunning py_error

record eecbs_failure =
  error :: eecbs_error
  failure_stderr :: "string option"

record eecbs_success =
  cost :: "int option"
  result_output :: string
  stdout :: string
  stderr :: string

definition run_eecbs :: "int \<Rightarrow> proc_result \<Rightarrow> eecbs_failure + eecbs_success" where
  "run_eecbs timeout proc =
     (case proc of
        TimeoutExpired \<Rightarrow> Inl \<lparr>error = TimedOut timeout, failure_stderr = None\<rparr>
      | ProcRaised msg \<Rightarrow> Inl \<lparr>error = ErrorRunning (OtherException msg), failure_stderr = None\<rparr>
      | Completed returncode out err \<Rightarrow>
          if returncode \<noteq> 0
          then Inl \<lparr>error = FailedReturnCode returncode, failure_stderr = Some err\<rparr>
          else (let output_lines = split_sep (CHR 0x0A) (strip out)
                in if output_lines = [] then Inl \<lparr>error = NoOutput, failure_stderr = None\<rparr>
                   else (let result_line = last output_lines
                         in if \<not> contains ''Succeed'' result_line
                            then Inl \<lparr>error = DidNotSucceed result_line, failure_stderr = None\<rparr>
                            else (let parts = split_sep (CHR '','') result_line
                                  in if length parts \<ge> 5
                                     then (case py_int (parts ! 4) of
                                             Inl e \<Rightarrow> Inl \<lparr>error = ErrorRunning e, failure_stderr = None\<rparr>
                                           | Inr c \<Rightarrow> Inr \<lparr>cost = Some c, result_output = result_line,
                                                           stdout = out, stderr = err\<rparr>)
                                     else Inr \<lparr>cost = None, result_output = result_line,
                                               stdout = out, stderr = err\<rparr>))))"

subsection \<open>Temporary files, the solver, the paths file\<close>

text \<open>A row of the temporary scenario file written by \<open>_create_temp_scenario_multi\<close>:
  bucket, map name, width, height, start, goal.\<close>

type_synonym scen_row = "nat \<times> string \<times> int \<times> int \<times> point \<times> point"

definition create_temp_scenario_multi ::
    "string \<Rightarrow> int \<Rightarrow> int \<Rightarrow> (point \<times> point) list \<Rightarrow> scen_row list" where
  "create_temp_scenario_multi mname w h agent_pairs =
     map (\<lambda>(b, (s, g)). (b, mname, w, h, s, g)) (enumerate 0 agent_pairs)"

text \<open>\<open>self.temp_files\<close>: the files are named at random, so each one is recorded by what it
  is.\<close>

datatype temp_file = ScenFile "scen_row list" | StatsFile | PathsFile

text \<open>The external solver: for the \<open>seg\<close>-th call of a run and the scenario file it is given,
  what \<open>subprocess.run\<close> does and the \<open>Agent n: ...\<close> records (agent number, coordinates)
  that the two regular expressions of \<open>_parse_paths_file\<close> find in the paths file
  afterwards. A paths file that cannot be read has no records.\<close>

type_synonym solver = "nat \<Rightarrow> scen_row list \<Rightarrow> proc_result \<times> (nat \<times> path) list"

text \<open>Lines 237-240 for each record in turn.\<close>

fun parse_paths_from :: "path list \<Rightarrow> (nat \<times> path) list \<Rightarrow> path list" where
  "parse_paths_from paths [] = paths"
| "parse_paths_from paths ((agent_id, coordinates) # ms) =
     parse_paths_from
       ((paths @ replicate (Suc agent_id - length paths) [])[agent_id := coordinates]) ms"

definition parse_paths_file :: "(nat \<times> path) list \<Rightarrow> path list" where
  "parse_paths_file ms = parse_paths_from [] ms"

subsection \<open>\<open>run_waypoint_scenario\<close>\<close>

text \<open>Line 283.\<close>

definition seqs_of :: "scenario list \<Rightarrow> point list list" where
  "seqs_of agents = map (\<lambda>agent. [start agent] @ waypoints agent @ [goal agent]) agents"

text \<open>Line 285: \<open>max\<close> of an empty sequence raises \<open>ValueError\<close>.\<close>

definition num_segments_of :: "point list list \<Rightarrow> py_error + nat" where
  "num_segments_of seqs =
     (if seqs = [] then Inl (ValueError ''max'')
      else Inr (Max (set (map (\<lambda>seq. length seq - 1) seqs))))"

text \<open>Lines 299-310.\<close>

definition agent_pairs_of :: "point list list \<Rightarrow> nat \<Rightarrow> (point \<times> point) list" where
  "agent_pairs_of seqs seg =
     map (\<lambda>seq. if int seg < int (length seq) - 1 then (seq ! seg, seq ! (seg + 1))
                else (last seq, last seq)) seqs"

record segment_result =
  segment :: nat
  agent_pairs :: "(point \<times> point) list"
  segment_cost :: "int option"
  paths :: "path list"
  eecbs_output :: string

record loop_state =
  complete_paths :: "path list"
  total_cost :: int
  segment_results :: "segment_result list"
  temp_files :: "temp_file list"

text \<open>The \<open>'error'\<close> messages of \<open>run_waypoint_scenario\<close>, each with the values its f-string
  holds: \<open>SegmentFailed n e\<close> is \<open>"Segment {n} failed: {e}"\<close>.\<close>

datatype run_error =
    NoScenariosFound
  | ScenarioIndexOutOfRange int int
  | NotEnoughAgents int nat
  | SegmentFailed nat eecbs_error

record final_result =
  result_agents :: "scenario list"
  result_total_cost :: int
  result_segment_results :: "segment_result list"
  result_complete_paths :: "path list"
  result_num_segments :: nat
  result_num_agents :: int

text \<open>The returned dictionary: \<open>{'success': False, 'error': ...}\<close> or the final result.\<close>

datatype run_result = Failure run_error | Success final_result

text \<open>Line 352: \<open>result['cost'] if result['cost'] else 0\<close>.\<close>

definition cost_or_zero :: "int option \<Rightarrow> int" where
  "cost_or_zero c = (case c of None \<Rightarrow> 0 | Some v \<Rightarrow> if v \<noteq> 0 then v else 0)"

text \<open>Lines 358-366 for one agent.\<close>

definition stitch_agent :: "nat \<Rightarrow> path \<Rightarrow> path \<Rightarrow> py_error + path" where
  "stitch_agent seg complete p =
     (if seg = 0 then Inr p
      else if length p > 1 then Inr (complete @ drop 1 p)
      else if p = [] then Inl IndexError
      else Inr (complete @ [p ! 0]))"

text \<open>Line 357: \<open>segment_paths[agent_id] if agent_id < len(segment_paths) else []\<close>.\<close>

definition path_of :: "path list \<Rightarrow> nat \<Rightarrow> path" where
  "path_of segment_paths agent_id =
     (if agent_id < length segment_paths then segment_paths ! agent_id else [])"

text \<open>Lines 356-366: the loop over \<open>range(num_agents)\<close>.\<close>

fun stitch_paths :: "nat \<Rightarrow> path list \<Rightarrow> nat list \<Rightarrow> path list \<Rightarrow> py_error + path list" where
  "stitch_paths seg segment_paths [] cps = Inr cps"
| "stitch_paths seg segment_paths (agent_id # ids) cps =
     err_bind (stitch_agent seg (cps ! agent_id) (path_of segment_paths agent_id))
       (\<lambda>q. stitch_paths seg segment_paths ids (cps[agent_id := q]))"

text \<open>How control leaves the segment loop: it ran to its end, it returned the failure
  dictionary of line 335 (the local state at that moment is kept for inspection), or an
  exception was raised, after which only \<open>self.temp_files\<close> remains.\<close>

datatype loop_outcome =
    Finished loop_state
  | Aborted loop_state run_error
  | Raised "temp_file list" py_error

text \<open>Lines 296-366, one iteration. \<open>first\<close> is \<open>agents[0]\<close>.\<close>

definition run_segment ::
    "solver \<Rightarrow> int \<Rightarrow> int \<Rightarrow> point list list \<Rightarrow> scenario \<Rightarrow> nat \<Rightarrow> loop_state \<Rightarrow> loop_outcome" where
  "run_segment slv timeout num_agents seqs first seg st =
     (let pairs = agent_pairs_of seqs seg;
          temp_scenario = create_temp_scenario_multi (map_name first) (width first) (height first) pairs;
          tf = temp_files st @ [ScenFile temp_scenario, StatsFile, PathsFile];
          reply = slv seg temp_scenario
      in case run_eecbs timeout (fst reply) of
           Inl failure \<Rightarrow> Aborted (st\<lparr>temp_files := tf\<rparr>) (SegmentFailed (seg + 1) (error failure))
         | Inr result \<Rightarrow>
             (let segment_paths = parse_paths_file (snd reply);
                  sr = \<lparr>segment = seg + 1, agent_pairs = pairs, segment_cost = cost result,
                        paths = segment_paths, eecbs_output = result_output result\<rparr>;
                  tc = total_cost st + cost_or_zero (cost result)
              in case stitch_paths seg segment_paths [0..<nat num_agents] (complete_paths st) of
                   Inl e \<Rightarrow> Raised tf e
                 | Inr cps \<Rightarrow>
                     Finished \<lparr>complete_paths = cps, total_cost = tc,
                               segment_results = segment_results st @ [sr], temp_files = tf\<rparr>))"

text \<open>Line 295: \<open>for seg in range(num_segments)\<close>, over the list of the remaining indices.\<close>

fun segment_loop ::
    "solver \<Rightarrow> int \<Rightarrow> int \<Rightarrow> point list list \<Rightarrow> scenario \<Rightarrow> nat list \<Rightarrow> loop_state \<Rightarrow> loop_outcome" where
  "segment_loop slv timeout num_agents seqs first [] st = Finished st"
| "segment_loop slv timeout num_agents seqs first (seg # segs) st =
     (case run_segment slv timeout num_agents seqs first seg st of
        Finished st' \<Rightarrow> segment_loop slv timeout num_agents seqs first segs st'
      | Aborted st' e \<Rightarrow> Aborted st' e
      | Raised tf e \<Rightarrow> Raised tf e)"

text \<open>Lines 291-293: the local state before the first segment.\<close>

definition initial_state :: "int \<Rightarrow> temp_file list \<Rightarrow> loop_state" where
  "initial_state num_agents tf0 =
     \<lparr>complete_paths = replicate (nat num_agents) [], total_cost = 0,
      segment_results = [], temp_files = tf0\<rparr>"

text \<open>\<open>run_waypoint_scenario\<close> with \<open>output_dir = None\<close>, from the lines of the scenario file
  and the runner's \<open>temp_files\<close>; it gives the \<open>temp_files\<close> afterwards and either the raised
  exception or the returned dictionary. The suboptimality bound is only handed to the
  solver.\<close>

definition run_waypoint_scenario ::
    "solver \<Rightarrow> string list \<Rightarrow> int \<Rightarrow> int \<Rightarrow> int \<Rightarrow> temp_file list
       \<Rightarrow> temp_file list \<times> (py_error + run_result)" where
  "run_waypoint_scenario slv lines scenario_index num_agents timeout tf0 =
     (let scenarios = fst (parse_scenarios lines)
      in if scenarios = [] then (tf0, Inr (Failure NoScenariosFound))
         else if scenario_index \<ge> int (length scenarios)
         then (tf0, Inr (Failure (ScenarioIndexOutOfRange scenario_index (int (length scenarios) - 1))))
         else (let agents = py_slice scenarios scenario_index (scenario_index + num_agents)
               in if int (length agents) < num_agents
                  then (tf0, Inr (Failure (NotEnoughAgents num_agents (length agents))))
                  else (let seqs = seqs_of agents
                        in case num_segments_of seqs of
                             Inl e \<Rightarrow> (tf0, Inl e)
                           | Inr num_segments \<Rightarrow>
                               (case segment_loop slv timeout num_agents seqs (hd agents)
                                       [0..<num_segments] (initial_state num_agents tf0) of
                                  Raised tf e \<Rightarrow> (tf, Inl e)
                                | Aborted st e \<Rightarrow> (temp_files st, Inr (Failure e))
                                | Finished st \<Rightarrow>
                                    (temp_files st,
                                     Inr (Success \<lparr>result_agents = agents,
                                            result_total_cost = total_cost st,
                                            result_segment_results = segment_results st,
                                            result_complete_paths = complete_paths st,
                                            result_num_segments = num_segments,
                                            result_num_agents = num_agents\<rparr>))))))"

subsection \<open>Names for what a run does at one segment\<close>

text \<open>The solver's answer to the call made for segment \<open>seg\<close>, and the three temporary
  files that the iteration for \<open>seg\<close> adds to \<open>self.temp_files\<close>.\<close>

definition segment_reply ::
    "solver \<Rightarrow> scenario \<Rightarrow> point list list \<Rightarrow> nat \<Rightarrow> proc_result \<times> (nat \<times> path) list" where
  "segment_reply slv first seqs seg =
     slv seg (create_temp_scenario_multi (map_name first) (width first) (height first)
                (agent_pairs_of seqs seg))"

definition segment_files :: "scenario \<Rightarrow> point list list \<Rightarrow> nat \<Rightarrow> temp_file list" where
  "segment_files first seqs seg =
     [ScenFile (create_temp_scenario_multi (map_name first) (width first) (height first)
                  (agent_pairs_of seqs seg)), StatsFile, PathsFile]"

text \<open>What segment \<open>seg\<close> adds to \<open>total_cost\<close> at line 352 once it has been solved.\<close>

definition segment_cost_of :: "solver \<Rightarrow> int \<Rightarrow> scenario \<Rightarrow> point list list \<Rightarrow> nat \<Rightarrow> int" where
  "segment_cost_of slv timeout first seqs seg =
     (case run_eecbs timeout (fst (segment_reply slv first seqs seg)) of
        Inl failure \<Rightarrow> 0
      | Inr result \<Rightarrow> cost_or_zero (cost result))"

text \<open>\<open>result.get('complete_paths')\<close> and \<open>result.get('total_cost')\<close> on the returned
  dictionary: the failure dictionary has neither key.\<close>

definition get_complete_paths :: "run_result \<Rightarrow> path list option" where
  "get_complete_paths r = (case r of Failure e \<Rightarrow> None | Success f \<Rightarrow> Some (result_complete_paths f))"

definition get_total_cost :: "run_result \<Rightarrow> int option" where
  "get_total_cost r = (case r of Failure e \<Rightarrow> None | Success f \<Rightarrow> Some (result_total_cost f))"

section \<open>Example inputs\<close>

text \<open>The two agents of the end-to-end example, and a solver that answers every instance
  with the status line \<open>Succeed\<close> and the two-point path from start to goal for each
  agent.\<close>

definition example_agent0 :: scenario where
  "example_agent0 = \<lparr>bucket = 0, map_name = ''m'', width = 8, height = 8, start = (0,0),
     goal = (4,4), optimal_length = ''0'', num_waypoints = 1, waypoints = [(2,2)]\<rparr>"

definition example_agent1 :: scenario where
  "example_agent1 = \<lparr>bucket = 1, map_name = ''m'', width = 8, height = 8, start = (1,1),
     goal = (3,3), optimal_length = ''0'', num_waypoints = 0, waypoints = []\<rparr>"

definition direct_solver :: solver where
  "direct_solver seg rows =
     (Completed 0 ''Succeed'' [], map (\<lambda>(b, m, w, h, s, g). (b, [s, g])) rows)"

text \<open>A scenario file with the two agents of the example.\<close>

definition example_line0 :: string where
  "example_line0 =
     ''0'' @ [CHR 0x09] @ ''m'' @ [CHR 0x09] @ ''8'' @ [CHR 0x09] @ ''8'' @ [CHR 0x09] @ ''0''
       @ [CHR 0x09] @ ''0'' @ [CHR 0x09] @ ''4'' @ [CHR 0x09] @ ''4'' @ [CHR 0x09] @ ''0''
       @ [CHR 0x09] @ ''1'' @ [CHR 0x09] @ ''2 2'' @ [CHR 0x0A]"

definition example_line1 :: string where
  "example_line1 =
     ''1'' @ [CHR 0x09] @ ''m'' @ [CHR 0x09] @ ''8'' @ [CHR 0x09] @ ''8'' @ [CHR 0x09] @ ''1''
       @ [CHR 0x09] @ ''1'' @ [CHR 0x09] @ ''3'' @ [CHR 0x09] @ ''3'' @ [CHR 0x09] @ ''0''
       @ [CHR 0x09] @ ''0'' @ [CHR 0x0A]"

definition example_lines :: "string list" where
  "example_lines = [''version 1'', example_line0, example_line1]"

text \<open>Variants of the first line: a declared waypoint count of 7 with the same single
  waypoint; a start x that is not a number; a waypoint y that is not a number; and a line
  of four fields.\<close>

definition example_line0_declared7 :: string where
  "example_line0_declared7 =
     ''0'' @ [CHR 0x09] @ ''m'' @ [CHR 0x09] @ ''8'' @ [CHR 0x09] @ ''8'' @ [CHR 0x09] @ ''0''
       @ [CHR 0x09] @ ''0'' @ [CHR 0x09] @ ''4'' @ [CHR 0x09] @ ''4'' @ [CHR 0x09] @ ''0''
       @ [CHR 0x09] @ ''7'' @ [CHR 0x09] @ ''2 2'' @ [CHR 0x0A]"

definition example_bad_line :: string where
  "example_bad_line =
     ''0'' @ [CHR 0x09] @ ''m'' @ [CHR 0x09] @ ''8'' @ [CHR 0x09] @ ''8'' @ [CHR 0x09] @ ''x''
       @ [CHR 0x09] @ ''0'' @ [CHR 0x09] @ ''4'' @ [CHR 0x09] @ ''4'' @ [CHR 0x09] @ ''0''
       @ [CHR 0x09] @ ''1'' @ [CHR 0x09] @ ''2 2'' @ [CHR 0x0A]"

definition example_bad_waypoint_line :: string where
  "example_bad_waypoint_line =
     ''0'' @ [CHR 0x09] @ ''m'' @ [CHR 0x09] @ ''8'' @ [CHR 0x09] @ ''8'' @ [CHR 0x09] @ ''0''
       @ [CHR 0x09] @ ''0'' @ [CHR 0x09] @ ''4'' @ [CHR 0x09] @ ''4'' @ [CHR 0x09] @ ''0''
       @ [CHR 0x09] @ ''2'' @ [CHR 0x09] @ ''2 a 3 3'' @ [CHR 0x0A]"

definition example_short_line :: string where
  "example_short_line =
     ''0'' @ [CHR 0x09] @ ''m'' @ [CHR 0x09] @ ''8'' @ [CHR 0x09] @ ''8'' @ [CHR 0x0A]"

text \<open>A solver whose paths file for every segment after the first holds a record for
  agent 0 only.\<close>

definition partial_solver :: solver where
  "partial_solver seg rows =
     (Completed 0 ''Succeed'' [],
      if seg = 0 then map (\<lambda>(b, m, w, h, s, g). (b, [s, g])) rows else [(0, [(2,2), (4,4)])])"

text \<open>One agent with three waypoints, hence four segments, and a solver that answers the
  first two calls and times out from the third call on.\<close>

definition example_route4 :: "point list list" where
  "example_route4 = [[(0,0), (1,1), (2,2), (3,3), (4,4)]]"

definition timeout_from_third :: solver where
  "timeout_from_third seg rows = (if seg < 2 then direct_solver seg rows else (TimeoutExpired, []))"

text \<open>Two agents, the first with two waypoints, hence three segments; and a solver that
  answers the first call in full, answers the second call with success but writes a path
  record for agent 0 only, and times out from the third call on.\<close>

definition example_routes3 :: "point list list" where
  "example_routes3 = [[(0,0), (1,1), (2,2), (4,4)], [(1,1), (3,3)]]"

definition partial_then_timeout :: solver where
  "partial_then_timeout seg rows =
     (if seg = 0 then direct_solver seg rows
      else if seg = 1 then (Completed 0 ''Succeed'' [], [(0, [(1,1), (2,2)])])
      else (TimeoutExpired, []))"

text \<open>A solver that never answers in time.\<close>

definition always_timeout :: solver where
  "always_timeout seg rows = (TimeoutExpired, [])"

section \<open>Properties\<close>

subsection \<open>Segment decomposition\<close>


lemma nth_agent_pairs_of:
  "a < length seqs \<Longrightarrow>
   agent_pairs_of seqs seg ! a =
     (if seg + 1 < length (seqs ! a) then (seqs ! a ! seg, seqs ! a ! (seg + 1))
      else (last (seqs ! a), last (seqs ! a)))"
  by (auto simp: agent_pairs_of_def)

lemma length_seqs_of: "length (seqs_of agents) = length agents"
  by (simp add: seqs_of_def)

lemma nth_seqs_of:
  "a < length agents \<Longrightarrow>
   seqs_of agents ! a = start (agents ! a) # waypoints (agents ! a) @ [goal (agents ! a)]"
  by (simp add: seqs_of_def)

lemma cost_or_zero_eq: "cost_or_zero c = (case c of None \<Rightarrow> 0 | Some v \<Rightarrow> v)"
  by (simp add: cost_or_zero_def split: option.splits)

lemma run_segment_eq:
  "run_segment slv timeout num_agents seqs first seg st =
     (case run_eecbs timeout (fst (segment_reply slv first seqs seg)) of
        Inl failure \<Rightarrow>
          Aborted (st\<lparr>temp_files := temp_files st @ segment_files first seqs seg\<rparr>)
            (SegmentFailed (seg + 1) (error failure))
      | Inr result \<Rightarrow>
          (case stitch_paths seg (parse_paths_file (snd (segment_reply slv first seqs seg)))
                  [0..<nat num_agents] (complete_paths st) of
             Inl e \<Rightarrow> Raised (temp_files st @ segment_files first seqs seg) e
           | Inr cps \<Rightarrow>
               Finished \<lparr>complete_paths = cps,
                 total_cost = total_cost st + cost_or_zero (cost result),
                 segment_results = segment_results st @
                   [\<lparr>segment = seg + 1, agent_pairs = agent_pairs_of seqs seg,
                     segment_cost = cost result,
                     paths = parse_paths_file (snd (segment_reply slv first seqs seg)),
                     eecbs_output = result_output result\<rparr>],
                 temp_files = temp_files st @ segment_files first seqs seg\<rparr>))"
  by (simp add: run_segment_def segment_reply_def segment_files_def Let_def
      split: sum.splits)

lemma run_segment_Finished:
  assumes "run_segment slv timeout num_agents seqs first seg st = Finished st'"
  shows "\<exists>result cps.
           run_eecbs timeout (fst (segment_reply slv first seqs seg)) = Inr result
         \<and> stitch_paths seg (parse_paths_file (snd (segment_reply slv first seqs seg)))
             [0..<nat num_agents] (complete_paths st) = Inr cps
         \<and> complete_paths st' = cps
         \<and> total_cost st' = total_cost st + cost_or_zero (cost result)
         \<and> segment_results st' = segment_results st @
               [\<lparr>segment = seg + 1, agent_pairs = agent_pairs_of seqs seg,
                 segment_cost = cost result,
                 paths = parse_paths_file (snd (segment_reply slv first seqs seg)),
                 eecbs_output = result_output result\<rparr>]
         \<and> temp_files st' = temp_files st @ segment_files first seqs seg"
  using assms
  by (auto simp: run_segment_eq split: sum.splits)






lemma run_eecbs_Succeed:
  "run_eecbs t (Completed 0 ''Succeed'' []) =
     Inr \<lparr>cost = None, result_output = ''Succeed'', stdout = ''Succeed'', stderr = []\<rparr>"
  by (simp add: run_eecbs_def strip_def py_isspace_def split_sep_def Let_def)

lemma replicate_2: "replicate 2 x = [x, x]"
  by (simp add: numeral_2_eq_2)

lemma example_seqs:
  "seqs_of [example_agent0, example_agent1] = [[(0,0),(2,2),(4,4)], [(1,1),(3,3)]]"
  by (simp add: seqs_of_def example_agent0_def example_agent1_def)

lemma example_loop:
  "segment_loop direct_solver 60 2 [[(0,0),(2,2),(4,4)], [(1,1),(3,3)]] example_agent0 [0..<2]
     (initial_state 2 []) =
   Finished \<lparr>complete_paths = [[(0,0),(2,2),(4,4)], [(1,1),(3,3),(3,3)]], total_cost = 0,
     segment_results =
       [\<lparr>segment = 1, agent_pairs = [((0,0),(2,2)), ((1,1),(3,3))], segment_cost = None,
          paths = [[(0,0),(2,2)], [(1,1),(3,3)]], eecbs_output = ''Succeed''\<rparr>,
        \<lparr>segment = 2, agent_pairs = [((2,2),(4,4)), ((3,3),(3,3))], segment_cost = None,
          paths = [[(2,2),(4,4)], [(3,3),(3,3)]], eecbs_output = ''Succeed''\<rparr>],
     temp_files =
       [ScenFile [(0, ''m'', 8, 8, (0,0), (2,2)), (1, ''m'', 8, 8, (1,1), (3,3))],
        StatsFile, PathsFile,
        ScenFile [(0, ''m'', 8, 8, (2,2), (4,4)), (1, ''m'', 8, 8, (3,3), (3,3))],
        StatsFile, PathsFile]\<rparr>"
  by (simp add: upt_rec run_segment_def direct_solver_def run_eecbs_Succeed agent_pairs_of_def
      create_temp_scenario_multi_def enumerate_eq_zip parse_paths_file_def stitch_agent_def
      err_bind_def initial_state_def example_agent0_def replicate_2 cost_or_zero_def path_of_def Let_def)


subsection \<open>The segment loop and the stitching of paths\<close>

lemma segment_loop_append:
  "segment_loop slv t k seqs first (xs @ ys) st =
     (case segment_loop slv t k seqs first xs st of
        Finished st' \<Rightarrow> segment_loop slv t k seqs first ys st'
      | Aborted st' e \<Rightarrow> Aborted st' e
      | Raised tf e \<Rightarrow> Raised tf e)"
  by (induction xs arbitrary: st) (auto split: loop_outcome.splits)

lemma segment_loop_single:
  "segment_loop slv t k seqs first [seg] st = run_segment slv t k seqs first seg st"
  by (simp split: loop_outcome.splits)

lemma segment_loop_Suc:
  "segment_loop slv t k seqs first [0..<Suc m] st =
     (case segment_loop slv t k seqs first [0..<m] st of
        Finished st' \<Rightarrow> run_segment slv t k seqs first m st'
      | Aborted st' e \<Rightarrow> Aborted st' e
      | Raised tf e \<Rightarrow> Raised tf e)"
  by (simp add: segment_loop_append split: loop_outcome.splits)

lemma stitch_agent_nonempty:
  "p \<noteq> [] \<Longrightarrow>
   stitch_agent seg cp p =
     Inr (if seg = 0 then p else if length p > 1 then cp @ drop 1 p else cp @ [p ! 0])"
  by (simp add: stitch_agent_def)

lemma stitch_agent_hd_last:
  assumes "p \<noteq> []" and "seg = 0 \<or> cp \<noteq> []" and "stitch_agent seg cp p = Inr q"
  shows "q \<noteq> [] \<and> hd q = (if seg = 0 then hd p else hd cp) \<and> last q = last p"
proof (cases "seg = 0")
  case True
  with assms show ?thesis by (simp add: stitch_agent_def)
next
  case False
  with assms have cp: "cp \<noteq> []" by simp
  show ?thesis
  proof (cases "length p > 1")
    case True
    with False assms have q: "q = cp @ drop 1 p" by (simp add: stitch_agent_def)
    from True have "drop 1 p \<noteq> []" by simp
    moreover from True have "last (drop 1 p) = last p" by (simp add: last_drop)
    ultimately show ?thesis using q cp False by simp
  next
    case F2: False
    with assms obtain x where p: "p = [x]" by (cases p) auto
    with False assms have "q = cp @ [x]" by (simp add: stitch_agent_def)
    with p cp False show ?thesis by simp
  qed
qed

lemma stitch_paths_ok:
  assumes "distinct ids" and "\<forall>a\<in>set ids. a < length cps"
    and "\<forall>a\<in>set ids. \<exists>q. stitch_agent seg (cps ! a) (path_of sp a) = Inr q"
  shows "\<exists>cps'. stitch_paths seg sp ids cps = Inr cps' \<and> length cps' = length cps
           \<and> (\<forall>a<length cps.
                 if a \<in> set ids then stitch_agent seg (cps ! a) (path_of sp a) = Inr (cps' ! a)
                 else cps' ! a = cps ! a)"
  using assms
proof (induction ids arbitrary: cps)
  case Nil
  then show ?case by simp
next
  case (Cons a ids)
  from Cons.prems obtain q where q: "stitch_agent seg (cps ! a) (path_of sp a) = Inr q"
    by auto
  let ?c = "cps[a := q]"
  from Cons.prems have a: "a \<notin> set ids" "a < length cps" by auto
  have pre2: "\<forall>b\<in>set ids. b < length ?c" using Cons.prems by simp
  have pre3: "\<forall>b\<in>set ids. \<exists>r. stitch_agent seg (?c ! b) (path_of sp b) = Inr r"
  proof
    fix b assume b: "b \<in> set ids"
    with a have "b \<noteq> a" by auto
    then have "?c ! b = cps ! b" by simp
    with Cons.prems b show "\<exists>r. stitch_agent seg (?c ! b) (path_of sp b) = Inr r" by simp
  qed
  from Cons.prems have "distinct ids" by simp
  from Cons.IH [OF this pre2 pre3] obtain cps' where
    r: "stitch_paths seg sp ids ?c = Inr cps'" and l: "length cps' = length ?c" and
    n: "\<forall>b<length ?c. if b \<in> set ids
          then stitch_agent seg (?c ! b) (path_of sp b) = Inr (cps' ! b)
          else cps' ! b = ?c ! b"
    by blast
  have "stitch_paths seg sp (a # ids) cps = Inr cps'"
    using q r by (simp add: err_bind_def)
  moreover have "length cps' = length cps" using l by simp
  moreover have "\<forall>b<length cps.
       if b \<in> set (a # ids) then stitch_agent seg (cps ! b) (path_of sp b) = Inr (cps' ! b)
       else cps' ! b = cps ! b"
  proof (intro allI impI)
    fix b assume b: "b < length cps"
    show "if b \<in> set (a # ids) then stitch_agent seg (cps ! b) (path_of sp b) = Inr (cps' ! b)
       else cps' ! b = cps ! b"
    proof (cases "b = a")
      case True
      with n a b have "cps' ! a = q" by simp
      with True q show ?thesis by simp
    next
      case False
      then have "?c ! b = cps ! b" by simp
      with n b False show ?thesis by (auto split: if_splits)
    qed
  qed
  ultimately show ?case by blast
qed


lemma loop_invariant:
  assumes inv: "\<forall>i<n. \<forall>result.
      run_eecbs timeout (fst (segment_reply slv first seqs i)) = Inr result \<longrightarrow>
      (\<forall>a<N. path_of (parse_paths_file (snd (segment_reply slv first seqs i))) a \<noteq> []
         \<and> hd (path_of (parse_paths_file (snd (segment_reply slv first seqs i))) a)
             = fst (agent_pairs_of seqs i ! a)
         \<and> last (path_of (parse_paths_file (snd (segment_reply slv first seqs i))) a)
             = snd (agent_pairs_of seqs i ! a))"
    and k: "k \<le> n"
  shows "(\<forall>tf e. segment_loop slv timeout (int N) seqs first [0..<k]
                   (initial_state (int N) tf0) \<noteq> Raised tf e)
       \<and> (\<forall>st. segment_loop slv timeout (int N) seqs first [0..<k]
                   (initial_state (int N) tf0) = Finished st \<longrightarrow>
               length (complete_paths st) = N
             \<and> (0 < k \<longrightarrow>
                  (\<forall>a<N. complete_paths st ! a \<noteq> []
                     \<and> hd (complete_paths st ! a) = fst (agent_pairs_of seqs 0 ! a)
                     \<and> last (complete_paths st ! a) = snd (agent_pairs_of seqs (k - 1) ! a))))"
  using k
proof (induction k)
  case 0
  show ?case by (simp add: initial_state_def)
next
  case (Suc k)
  let ?loop = "\<lambda>m. segment_loop slv timeout (int N) seqs first [0..<m] (initial_state (int N) tf0)"
  let ?ps = "parse_paths_file (snd (segment_reply slv first seqs k))"
  from Suc have IH1: "\<forall>tf e. ?loop k \<noteq> Raised tf e"
    and IH2: "\<forall>st. ?loop k = Finished st \<longrightarrow> length (complete_paths st) = N
        \<and> (0 < k \<longrightarrow> (\<forall>a<N. complete_paths st ! a \<noteq> []
              \<and> hd (complete_paths st ! a) = fst (agent_pairs_of seqs 0 ! a)
              \<and> last (complete_paths st ! a) = snd (agent_pairs_of seqs (k - 1) ! a)))"
    by simp_all
  from Suc.prems have kn: "k < n" by simp
  show ?case
  proof (cases "?loop k")
    case (Raised tf e)
    with IH1 show ?thesis by simp
  next
    case (Aborted st e)
    then have "?loop (Suc k) = Aborted st e"
      by (simp only: segment_loop_Suc loop_outcome.case)
    then show ?thesis by simp
  next
    case (Finished stk)
    then have step: "?loop (Suc k) = run_segment slv timeout (int N) seqs first k stk"
      by (simp only: segment_loop_Suc loop_outcome.case)
    from IH2 Finished have len: "length (complete_paths stk) = N"
      and prev: "0 < k \<longrightarrow> (\<forall>a<N. complete_paths stk ! a \<noteq> []
              \<and> hd (complete_paths stk ! a) = fst (agent_pairs_of seqs 0 ! a)
              \<and> last (complete_paths stk ! a) = snd (agent_pairs_of seqs (k - 1) ! a))"
      by simp_all
    show ?thesis
    proof (cases "run_eecbs timeout (fst (segment_reply slv first seqs k))")
      case (Inl failure)
      with step show ?thesis by (simp add: run_segment_eq)
    next
      case (Inr result)
      with inv kn have ps: "\<forall>a<N. path_of ?ps a \<noteq> []
         \<and> hd (path_of ?ps a) = fst (agent_pairs_of seqs k ! a)
         \<and> last (path_of ?ps a) = snd (agent_pairs_of seqs k ! a)"
        by blast
      have "\<forall>a\<in>set [0..<N].
              \<exists>q. stitch_agent k (complete_paths stk ! a) (path_of ?ps a) = Inr q"
        using ps by (simp add: stitch_agent_nonempty)
      moreover have "\<forall>a\<in>set [0..<N]. a < length (complete_paths stk)"
        using len by simp
      ultimately obtain cps' where
        st: "stitch_paths k ?ps [0..<N] (complete_paths stk) = Inr cps'" and
        l': "length cps' = N" and
        each: "\<forall>a<N. stitch_agent k (complete_paths stk ! a) (path_of ?ps a) = Inr (cps' ! a)"
        using stitch_paths_ok [of "[0..<N]" "complete_paths stk" k ?ps] len by auto
      from step Inr st obtain st' where
        fin: "?loop (Suc k) = Finished st'" and cp': "complete_paths st' = cps'"
        by (simp add: run_segment_eq)
      have "\<forall>a<N. cps' ! a \<noteq> [] \<and> hd (cps' ! a) = fst (agent_pairs_of seqs 0 ! a)
                \<and> last (cps' ! a) = snd (agent_pairs_of seqs k ! a)"
      proof (intro allI impI)
        fix a assume a: "a < N"
        from each a have sa: "stitch_agent k (complete_paths stk ! a) (path_of ?ps a) = Inr (cps' ! a)"
          by simp
        from ps a have ne: "path_of ?ps a \<noteq> []" by simp
        from prev a have c: "k = 0 \<or> complete_paths stk ! a \<noteq> []" by auto
        from stitch_agent_hd_last [OF ne c sa] ps prev a
        show "cps' ! a \<noteq> [] \<and> hd (cps' ! a) = fst (agent_pairs_of seqs 0 ! a)
                \<and> last (cps' ! a) = snd (agent_pairs_of seqs k ! a)"
          by (cases "k = 0") auto
      qed
      with fin cp' l' show ?thesis by simp
    qed
  qed
qed


lemma num_segments_of_Inr:
  assumes "agents \<noteq> []" and "num_segments_of (seqs_of agents) = Inr n"
  shows "n = Max (set (map (\<lambda>route. length route - 1) (seqs_of agents)))"
    and "0 < n"
    and "\<forall>a<length agents. length (seqs_of agents ! a) - 1 \<le> n"
proof -
  let ?S = "set (map (\<lambda>route. length route - 1) (seqs_of agents))"
  from assms show n: "n = Max ?S" by (simp add: num_segments_of_def seqs_of_def)
  have fin: "finite ?S" by simp
  have mem: "\<forall>a<length agents. length (seqs_of agents ! a) - 1 \<in> ?S"
    by (auto simp: length_seqs_of)
  then show le: "\<forall>a<length agents. length (seqs_of agents ! a) - 1 \<le> n"
    using n fin by (auto intro: Max_ge)
  from assms have "0 < length agents" by simp
  with le have "length (seqs_of agents ! 0) - 1 \<le> n" by blast
  moreover have "length (seqs_of agents ! 0) = length (waypoints (agents ! 0)) + 2"
    using \<open>0 < length agents\<close> by (simp add: nth_seqs_of)
  ultimately show "0 < n" by simp
qed

lemma first_pair_start:
  assumes "a < length agents"
  shows "fst (agent_pairs_of (seqs_of agents) 0 ! a) = start (agents ! a)"
  using assms by (simp add: nth_agent_pairs_of length_seqs_of nth_seqs_of)

lemma last_pair_goal:
  assumes "agents \<noteq> []" and "num_segments_of (seqs_of agents) = Inr n"
    and a: "a < length agents"
  shows "snd (agent_pairs_of (seqs_of agents) (n - 1) ! a) = goal (agents ! a)"
proof -
  let ?seq = "seqs_of agents ! a"
  have seq: "?seq = start (agents ! a) # waypoints (agents ! a) @ [goal (agents ! a)]"
    using a by (simp add: nth_seqs_of)
  then have l: "last ?seq = goal (agents ! a)" by simp
  from num_segments_of_Inr [OF assms(1,2)] a have le: "length ?seq - 1 \<le> n" and n0: "0 < n"
    by simp_all
  show ?thesis
  proof (cases "n - 1 + 1 < length ?seq")
    case True
    with le n0 have "n = length ?seq - 1" by simp
    moreover have "?seq \<noteq> []" using seq by simp
    ultimately have "?seq ! n = last ?seq" by (simp add: last_conv_nth)
    with True n0 a l show ?thesis
      by (simp add: nth_agent_pairs_of length_seqs_of)
  next
    case False
    with a l show ?thesis by (simp add: nth_agent_pairs_of length_seqs_of)
  qed
qed

text \<open>
  C3. Assume that every successful segment outcome satisfies the outcome invariant: it has
  one path per agent, and the path of agent \<open>a\<close> is non-empty, starts at the \<open>from\<close> point
  of the agent's pair and ends at its \<open>to\<close> point. Then, for every \<open>k\<close> up to the number of
  segments, the loop over the first \<open>k\<close> segments raises no exception, and when these \<open>k \<ge> 1\<close>
  segments have been stitched the assembled path of every agent is non-empty and starts at
  the agent's declared start; when all segments have been stitched it ends at the agent's
  declared goal. (By \<open>segment_loop_append\<close> the loop over the first \<open>k\<close> indices is the state
  of the whole run after \<open>k\<close> segments; before the first segment the assembled paths are
  empty.)
\<close>

theorem assembled_path_endpoints:
  assumes ne: "agents \<noteq> []"
    and n: "num_segments_of (seqs_of agents) = Inr n"
    and inv: "\<forall>i<n. \<forall>result.
      run_eecbs timeout (fst (segment_reply slv first (seqs_of agents) i)) = Inr result \<longrightarrow>
        length (parse_paths_file (snd (segment_reply slv first (seqs_of agents) i)))
          = length agents
      \<and> (\<forall>a<length agents.
            parse_paths_file (snd (segment_reply slv first (seqs_of agents) i)) ! a \<noteq> []
          \<and> hd (parse_paths_file (snd (segment_reply slv first (seqs_of agents) i)) ! a)
              = fst (agent_pairs_of (seqs_of agents) i ! a)
          \<and> last (parse_paths_file (snd (segment_reply slv first (seqs_of agents) i)) ! a)
              = snd (agent_pairs_of (seqs_of agents) i ! a))"
  shows "\<forall>k\<le>n.
           (\<forall>tf e. segment_loop slv timeout (int (length agents)) (seqs_of agents) first
                     [0..<k] (initial_state (int (length agents)) tf0) \<noteq> Raised tf e)
         \<and> (\<forall>st. segment_loop slv timeout (int (length agents)) (seqs_of agents) first
                     [0..<k] (initial_state (int (length agents)) tf0) = Finished st
                 \<and> 0 < k \<longrightarrow>
                 (\<forall>a<length agents.
                     complete_paths st ! a \<noteq> []
                   \<and> hd (complete_paths st ! a) = start (agents ! a)
                   \<and> (k = n \<longrightarrow> last (complete_paths st ! a) = goal (agents ! a))))"
proof (intro allI impI)
  fix k assume k: "k \<le> n"
  have inv': "\<forall>i<n. \<forall>result.
      run_eecbs timeout (fst (segment_reply slv first (seqs_of agents) i)) = Inr result \<longrightarrow>
      (\<forall>a<length agents.
         path_of (parse_paths_file (snd (segment_reply slv first (seqs_of agents) i))) a \<noteq> []
         \<and> hd (path_of (parse_paths_file (snd (segment_reply slv first (seqs_of agents) i))) a)
             = fst (agent_pairs_of (seqs_of agents) i ! a)
         \<and> last (path_of (parse_paths_file (snd (segment_reply slv first (seqs_of agents) i))) a)
             = snd (agent_pairs_of (seqs_of agents) i ! a))"
    using inv by (simp add: path_of_def)
  note L = loop_invariant [OF inv' k, of tf0]
  show "(\<forall>tf e. segment_loop slv timeout (int (length agents)) (seqs_of agents) first
                     [0..<k] (initial_state (int (length agents)) tf0) \<noteq> Raised tf e)
         \<and> (\<forall>st. segment_loop slv timeout (int (length agents)) (seqs_of agents) first
                     [0..<k] (initial_state (int (length agents)) tf0) = Finished st
                 \<and> 0 < k \<longrightarrow>
                 (\<forall>a<length agents.
                     complete_paths st ! a \<noteq> []
                   \<and> hd (complete_paths st ! a) = start (agents ! a)
                   \<and> (k = n \<longrightarrow> last (complete_paths st ! a) = goal (agents ! a))))"
  proof (intro conjI allI impI)
    fix tf e
    show "segment_loop slv timeout (int (length agents)) (seqs_of agents) first
                     [0..<k] (initial_state (int (length agents)) tf0) \<noteq> Raised tf e"
      using L by blast
  next
    fix st a
    assume f: "segment_loop slv timeout (int (length agents)) (seqs_of agents) first
                     [0..<k] (initial_state (int (length agents)) tf0) = Finished st \<and> 0 < k"
      and a: "a < length agents"
    with L have h: "complete_paths st ! a \<noteq> []"
      "hd (complete_paths st ! a) = fst (agent_pairs_of (seqs_of agents) 0 ! a)"
      "last (complete_paths st ! a) = snd (agent_pairs_of (seqs_of agents) (k - 1) ! a)"
      by blast+
    from h(1) show "complete_paths st ! a \<noteq> []" .
    from h(2) a show "hd (complete_paths st ! a) = start (agents ! a)"
      by (simp add: first_pair_start)
    assume "k = n"
    with h(3) last_pair_goal [OF ne n a]
    show "last (complete_paths st ! a) = goal (agents ! a)" by simp
  qed
qed


lemma example_num_segments:
  "num_segments_of (seqs_of [example_agent0, example_agent1]) = Inr 2"
  by (simp add: example_seqs num_segments_of_def)

lemma example_pairs:
  "agent_pairs_of [[(0,0),(2,2),(4,4)], [(1,1),(3,3)]] 0 = [((0,0),(2,2)), ((1,1),(3,3))]"
  "agent_pairs_of [[(0,0),(2,2),(4,4)], [(1,1),(3,3)]] (Suc 0) = [((2,2),(4,4)), ((3,3),(3,3))]"
  by (simp_all add: agent_pairs_of_def)

lemma example_direct_paths:
  "parse_paths_file (snd (segment_reply direct_solver example_agent0
      [[(0,0),(2,2),(4,4)], [(1,1),(3,3)]] 0)) = [[(0,0),(2,2)], [(1,1),(3,3)]]"
  "parse_paths_file (snd (segment_reply direct_solver example_agent0
      [[(0,0),(2,2),(4,4)], [(1,1),(3,3)]] (Suc 0))) = [[(2,2),(4,4)], [(3,3),(3,3)]]"
  by (simp_all add: segment_reply_def direct_solver_def example_pairs
      create_temp_scenario_multi_def enumerate_eq_zip parse_paths_file_def)

theorem assembled_path_endpoints_witness:
  "num_segments_of (seqs_of [example_agent0, example_agent1]) = Inr 2
   \<and> parse_paths_file (snd (segment_reply direct_solver example_agent0
         (seqs_of [example_agent0, example_agent1]) 0)) = [[(0,0),(2,2)], [(1,1),(3,3)]]
   \<and> parse_paths_file (snd (segment_reply direct_solver example_agent0
         (seqs_of [example_agent0, example_agent1]) 1)) = [[(2,2),(4,4)], [(3,3),(3,3)]]
   \<and> agent_pairs_of (seqs_of [example_agent0, example_agent1]) 0
        = [((0,0),(2,2)), ((1,1),(3,3))]
   \<and> agent_pairs_of (seqs_of [example_agent0, example_agent1]) 1
        = [((2,2),(4,4)), ((3,3),(3,3))]
   \<and> (\<exists>st. segment_loop direct_solver 60 2 (seqs_of [example_agent0, example_agent1])
               example_agent0 [0..<2] (initial_state 2 []) = Finished st
          \<and> hd (complete_paths st ! 0) = (0,0) \<and> last (complete_paths st ! 0) = (4,4)
          \<and> hd (complete_paths st ! 1) = (1,1) \<and> last (complete_paths st ! 1) = (3,3))"
proof -
  let ?agents = "[example_agent0, example_agent1]"
  have ne: "?agents \<noteq> []" by simp
  have inv: "\<forall>i<2. \<forall>result.
      run_eecbs 60 (fst (segment_reply direct_solver example_agent0 (seqs_of ?agents) i))
        = Inr result \<longrightarrow>
        length (parse_paths_file (snd (segment_reply direct_solver example_agent0
                  (seqs_of ?agents) i))) = length ?agents
      \<and> (\<forall>a<length ?agents.
            parse_paths_file (snd (segment_reply direct_solver example_agent0
                  (seqs_of ?agents) i)) ! a \<noteq> []
          \<and> hd (parse_paths_file (snd (segment_reply direct_solver example_agent0
                  (seqs_of ?agents) i)) ! a) = fst (agent_pairs_of (seqs_of ?agents) i ! a)
          \<and> last (parse_paths_file (snd (segment_reply direct_solver example_agent0
                  (seqs_of ?agents) i)) ! a) = snd (agent_pairs_of (seqs_of ?agents) i ! a))"
  proof (intro allI impI)
    fix i :: nat and result
    assume "i < 2"
    then have "i = 0 \<or> i = Suc 0" by auto
    then show "length (parse_paths_file (snd (segment_reply direct_solver example_agent0
                  (seqs_of ?agents) i))) = length ?agents
      \<and> (\<forall>a<length ?agents.
            parse_paths_file (snd (segment_reply direct_solver example_agent0
                  (seqs_of ?agents) i)) ! a \<noteq> []
          \<and> hd (parse_paths_file (snd (segment_reply direct_solver example_agent0
                  (seqs_of ?agents) i)) ! a) = fst (agent_pairs_of (seqs_of ?agents) i ! a)
          \<and> last (parse_paths_file (snd (segment_reply direct_solver example_agent0
                  (seqs_of ?agents) i)) ! a) = snd (agent_pairs_of (seqs_of ?agents) i ! a))"
      by (auto simp: example_seqs example_direct_paths example_pairs less_Suc_eq)
  qed
  obtain st where st: "segment_loop direct_solver 60 2 (seqs_of ?agents) example_agent0
      [0..<2] (initial_state 2 []) = Finished st"
    by (simp add: example_seqs example_loop)
  have "\<forall>a<length ?agents. complete_paths st ! a \<noteq> []
          \<and> hd (complete_paths st ! a) = start (?agents ! a)
          \<and> last (complete_paths st ! a) = goal (?agents ! a)"
    using assembled_path_endpoints [OF ne example_num_segments inv, of "[]"] st
    by auto
  then have "hd (complete_paths st ! 0) = (0,0) \<and> last (complete_paths st ! 0) = (4,4)
          \<and> hd (complete_paths st ! 1) = (1,1) \<and> last (complete_paths st ! 1) = (3,3)"
    by (simp add: example_agent0_def example_agent1_def less_Suc_eq all_conj_distrib)
  with st show ?thesis
    by (simp add: example_num_segments [unfolded example_seqs] example_seqs
        example_direct_paths example_pairs)
qed

subsection \<open>A path record that is missing\<close>

lemma py_int_digit:
  "py_int ''0'' = Inr 0" "py_int ''1'' = Inr 1" "py_int ''2'' = Inr 2" "py_int ''3'' = Inr 3"
  "py_int ''4'' = Inr 4" "py_int ''8'' = Inr 8"
  by (simp_all add: py_int_def c_strip_def c_isspace_def drop_sign_def is_digit_def
      digits_value_def digit_val_def int_max_str_digits_def)

lemma example_line0_fields:
  "strip example_line0 = butlast example_line0"
  "split_sep (CHR 0x09) (butlast example_line0)
     = [''0'', ''m'', ''8'', ''8'', ''0'', ''0'', ''4'', ''4'', ''0'', ''1'', ''2 2'']"
  by (simp_all add: example_line0_def strip_def py_isspace_def split_sep_def)

lemma example_line1_fields:
  "strip example_line1 = butlast example_line1"
  "split_sep (CHR 0x09) (butlast example_line1)
     = [''1'', ''m'', ''8'', ''8'', ''1'', ''1'', ''3'', ''3'', ''0'', ''0'']"
  by (simp_all add: example_line1_def strip_def py_isspace_def split_sep_def)

lemma py_float_0: "py_float ''0'' = Inr ''0''"
  by (simp add: py_float_def c_strip_def c_isspace_def drop_sign_def float_number_def is_e_def
      is_digit_def to_lower_def Let_def)

lemma split_ws_2_2: "split_ws ''2 2'' = [''2'', ''2'']"
  by (simp add: split_ws_def py_isspace_def)

lemma butlast_nonempty:
  "butlast example_line0 \<noteq> []" "butlast example_line1 \<noteq> []"
  by (simp_all add: example_line0_def example_line1_def)

lemma example_parse_line0: "parse_line example_line0 = Parsed example_agent0"
  by (simp add: parse_line_def example_line0_fields butlast_nonempty parse_parts_def
      err_bind_def py_int_digit py_float_0 split_ws_2_2 example_agent0_def)

lemma example_parse_line1: "parse_line example_line1 = Parsed example_agent1"
  by (simp add: parse_line_def example_line1_fields butlast_nonempty parse_parts_def
      err_bind_def py_int_digit py_float_0 example_agent1_def)

lemma example_parse:
  "parse_scenarios example_lines = ([example_agent0, example_agent1], [])"
  by (simp add: parse_scenarios_def example_lines_def example_parse_line0 example_parse_line1)

lemma example_slice:
  "py_slice [example_agent0, example_agent1] 0 2 = [example_agent0, example_agent1]"
  by (simp add: py_slice_def)

lemma partial_loop:
  "segment_loop partial_solver 60 2 [[(0,0),(2,2),(4,4)], [(1,1),(3,3)]] example_agent0 [0..<2]
     (initial_state 2 []) =
   Raised
     [ScenFile [(0, ''m'', 8, 8, (0,0), (2,2)), (1, ''m'', 8, 8, (1,1), (3,3))],
      StatsFile, PathsFile,
      ScenFile [(0, ''m'', 8, 8, (2,2), (4,4)), (1, ''m'', 8, 8, (3,3), (3,3))],
      StatsFile, PathsFile] IndexError"
  by (simp add: upt_rec run_segment_def partial_solver_def run_eecbs_Succeed agent_pairs_of_def
      create_temp_scenario_multi_def enumerate_eq_zip parse_paths_file_def stitch_agent_def
      err_bind_def initial_state_def example_agent0_def replicate_2 cost_or_zero_def
      path_of_def Let_def)

text \<open>
  C2. At segment index 0 the assembled path is the segment's path; at a later index a path
  of at least two points is appended without its first point, and a one-point path is
  appended whole (\<open>stitch_agent_nonempty\<close>). The claim also says that the empty path, which
  line 357 produces for an agent position with no record, makes the assembled path gain a
  point. It does not: at segment index 1, with a paths file that has a record for agent 0
  only, the path of agent 1 is empty, line 366 reads \<open>path[0]\<close>, and the stitching raises
  \<open>IndexError\<close>.
\<close>

theorem stitch_missing_record_raises:
  "path_of (parse_paths_file [(0, [(2,2), (4,4)])]) 1 = []
   \<and> stitch_agent 1 [(1,1), (3,3)] (path_of (parse_paths_file [(0, [(2,2), (4,4)])]) 1)
       = Inl IndexError
   \<and> stitch_paths 1 (parse_paths_file [(0, [(2,2), (4,4)])]) [0..<2]
         [[(0,0), (2,2)], [(1,1), (3,3)]] = Inl IndexError"
  by (simp add: parse_paths_file_def path_of_def stitch_agent_def err_bind_def upt_rec)

text \<open>
  C5. Every failure of a run is to be returned as a dictionary with \<open>success = False\<close>, for
  any segment outcome including an empty per-agent path. With the two example agents and a
  solver that reports success on both segments but writes no path record for agent 1 on the
  second one, \<open>run_waypoint_scenario\<close> returns nothing: \<open>IndexError\<close> escapes from line 366.
\<close>

theorem run_raises_on_missing_path:
  "run_waypoint_scenario partial_solver example_lines 0 2 60 [] =
     ([ScenFile [(0, ''m'', 8, 8, (0,0), (2,2)), (1, ''m'', 8, 8, (1,1), (3,3))],
       StatsFile, PathsFile,
       ScenFile [(0, ''m'', 8, 8, (2,2), (4,4)), (1, ''m'', 8, 8, (3,3), (3,3))],
       StatsFile, PathsFile], Inl IndexError)"
  by (simp add: run_waypoint_scenario_def example_parse example_slice example_seqs
      example_num_segments [unfolded example_seqs] partial_loop Let_def)

subsection \<open>How the segment loop ends\<close>

lemma loop_outcome_cases:
  "(\<exists>st. segment_loop slv timeout num_agents seqs first [0..<m] st0 = Finished st
        \<and> (\<forall>j<m. \<exists>r. run_eecbs timeout (fst (segment_reply slv first seqs j)) = Inr r)
        \<and> length (segment_results st) = length (segment_results st0) + m
        \<and> temp_files st = temp_files st0 @ concat (map (segment_files first seqs) [0..<m])
        \<and> total_cost st = total_cost st0 + (\<Sum>j<m. segment_cost_of slv timeout first seqs j))
   \<or> (\<exists>i<m. \<exists>st f stp.
          segment_loop slv timeout num_agents seqs first [0..<m] st0
            = Aborted st (SegmentFailed (i + 1) (error f))
        \<and> run_eecbs timeout (fst (segment_reply slv first seqs i)) = Inl f
        \<and> (\<forall>j<i. \<exists>r. run_eecbs timeout (fst (segment_reply slv first seqs j)) = Inr r)
        \<and> segment_loop slv timeout num_agents seqs first [0..<i] st0 = Finished stp
        \<and> complete_paths st = complete_paths stp
        \<and> segment_results st = segment_results stp
        \<and> length (segment_results st) = length (segment_results st0) + i
        \<and> temp_files st = temp_files st0 @ concat (map (segment_files first seqs) [0..<Suc i])
        \<and> total_cost st = total_cost st0 + (\<Sum>j<i. segment_cost_of slv timeout first seqs j))
   \<or> (\<exists>i<m. \<exists>e.
          segment_loop slv timeout num_agents seqs first [0..<m] st0
            = Raised (temp_files st0 @ concat (map (segment_files first seqs) [0..<Suc i])) e
        \<and> (\<forall>j\<le>i. \<exists>r. run_eecbs timeout (fst (segment_reply slv first seqs j)) = Inr r))"
  (is "?F m \<or> ?A m \<or> ?R m")
proof (induction m)
  case 0
  have "?F 0" by simp
  then show ?case by blast
next
  case (Suc m)
  let ?loop = "\<lambda>k. segment_loop slv timeout num_agents seqs first [0..<k] st0"
  from Suc consider (F) "?F m" | (A) "?A m" | (R) "?R m" by blast
  then show ?case
  proof cases
    case A
    then obtain i st f stp where i: "i < m"
      and ab: "?loop m = Aborted st (SegmentFailed (i + 1) (error f))"
      and rest: "run_eecbs timeout (fst (segment_reply slv first seqs i)) = Inl f"
        "\<forall>j<i. \<exists>r. run_eecbs timeout (fst (segment_reply slv first seqs j)) = Inr r"
        "?loop i = Finished stp"
        "complete_paths st = complete_paths stp"
        "segment_results st = segment_results stp"
        "length (segment_results st) = length (segment_results st0) + i"
        "temp_files st = temp_files st0 @ concat (map (segment_files first seqs) [0..<Suc i])"
        "total_cost st = total_cost st0 + (\<Sum>j<i. segment_cost_of slv timeout first seqs j)"
      by blast
    from ab have "?loop (Suc m) = Aborted st (SegmentFailed (i + 1) (error f))"
      by (simp only: segment_loop_Suc loop_outcome.case)
    with i rest have "?A (Suc m)"
      by (intro exI [of _ i] conjI exI [of _ st] exI [of _ f] exI [of _ stp]) simp_all
    then show ?thesis by blast
  next
    case R
    then obtain i e where i: "i < m"
      and r: "?loop m = Raised (temp_files st0 @ concat (map (segment_files first seqs) [0..<Suc i])) e"
      and s: "\<forall>j\<le>i. \<exists>r. run_eecbs timeout (fst (segment_reply slv first seqs j)) = Inr r"
      by blast
    from r have "?loop (Suc m)
        = Raised (temp_files st0 @ concat (map (segment_files first seqs) [0..<Suc i])) e"
      by (simp only: segment_loop_Suc loop_outcome.case)
    with i s have "?R (Suc m)"
      by (intro exI [of _ i] conjI exI [of _ e]) simp_all
    then show ?thesis by blast
  next
    case F
    then obtain st where fin: "?loop m = Finished st"
      and ok: "\<forall>j<m. \<exists>r. run_eecbs timeout (fst (segment_reply slv first seqs j)) = Inr r"
      and len: "length (segment_results st) = length (segment_results st0) + m"
      and tf: "temp_files st = temp_files st0 @ concat (map (segment_files first seqs) [0..<m])"
      and tc: "total_cost st = total_cost st0 + (\<Sum>j<m. segment_cost_of slv timeout first seqs j)"
      by blast
    from fin have step: "?loop (Suc m) = run_segment slv timeout num_agents seqs first m st"
      by (simp only: segment_loop_Suc loop_outcome.case)
    have tf': "temp_files st @ segment_files first seqs m
        = temp_files st0 @ concat (map (segment_files first seqs) [0..<Suc m])"
      using tf by simp
    show ?thesis
    proof (cases "run_eecbs timeout (fst (segment_reply slv first seqs m))")
      case (Inl f)
      let ?st = "st\<lparr>temp_files := temp_files st @ segment_files first seqs m\<rparr>"
      from step Inl have "?loop (Suc m) = Aborted ?st (SegmentFailed (m + 1) (error f))"
        by (simp add: run_segment_eq)
      with Inl ok fin len tf' tc have "?A (Suc m)"
        by (intro exI [of _ m] conjI exI [of _ ?st] exI [of _ f] exI [of _ st]) simp_all
      then show ?thesis by blast
    next
      case (Inr result)
      with ok have ok': "\<forall>j\<le>m. \<exists>r. run_eecbs timeout (fst (segment_reply slv first seqs j)) = Inr r"
        by (auto simp: le_less)
      show ?thesis
      proof (cases "stitch_paths m (parse_paths_file (snd (segment_reply slv first seqs m)))
                      [0..<nat num_agents] (complete_paths st)")
        case (Inl e)
        with step Inr tf' have "?loop (Suc m)
            = Raised (temp_files st0 @ concat (map (segment_files first seqs) [0..<Suc m])) e"
          by (simp add: run_segment_eq)
        with ok' have "?R (Suc m)"
          by (intro exI [of _ m] conjI exI [of _ e]) simp_all
        then show ?thesis by blast
      next
        case stitched: (Inr cps)
        from step Inr stitched obtain st' where
          f': "?loop (Suc m) = Finished st'" and
          "segment_results st' = segment_results st @
             [\<lparr>segment = m + 1, agent_pairs = agent_pairs_of seqs m,
               segment_cost = cost result,
               paths = parse_paths_file (snd (segment_reply slv first seqs m)),
               eecbs_output = result_output result\<rparr>]" and
          "temp_files st' = temp_files st @ segment_files first seqs m" and
          "total_cost st' = total_cost st + cost_or_zero (cost result)"
          by (simp add: run_segment_eq)
        moreover have "segment_cost_of slv timeout first seqs m = cost_or_zero (cost result)"
          using Inr by (simp add: segment_cost_of_def)
        ultimately have "?F (Suc m)"
          using ok' len tf' tc by (intro exI [of _ st'] conjI) (simp_all add: less_Suc_eq_le)
        then show ?thesis by blast
      qed
    qed
  qed
qed


text \<open>
  What holds for every solver: segments are built and solved one after the other, in index
  order. If segment \<open>i\<close> is the first whose solver call fails, then either the run returns
  the failure \<open>"Segment {i+1} failed: {reason}"\<close> with the reason of that call, the
  temporary files created are those of segments \<open>0..i\<close> and what has been stitched and
  recorded is the state after segments \<open>0..i-1\<close>; or an exception was raised while
  stitching a segment before \<open>i\<close>, and then too no later segment has been built.
\<close>

lemma abort_or_raise_before_first_failing_segment:
  assumes i: "i < n"
    and fail: "run_eecbs timeout (fst (segment_reply slv first seqs i)) = Inl f"
    and before: "\<forall>j<i. \<exists>r. run_eecbs timeout (fst (segment_reply slv first seqs j)) = Inr r"
  shows "(\<exists>st stp.
            segment_loop slv timeout num_agents seqs first [0..<n]
              (initial_state num_agents tf0) = Aborted st (SegmentFailed (i + 1) (error f))
          \<and> temp_files st = tf0 @ concat (map (segment_files first seqs) [0..<Suc i])
          \<and> segment_loop slv timeout num_agents seqs first [0..<i]
              (initial_state num_agents tf0) = Finished stp
          \<and> complete_paths st = complete_paths stp
          \<and> segment_results st = segment_results stp
          \<and> length (segment_results st) = i)
       \<or> (\<exists>j<i. \<exists>e.
            segment_loop slv timeout num_agents seqs first [0..<n]
              (initial_state num_agents tf0)
              = Raised (tf0 @ concat (map (segment_files first seqs) [0..<Suc j])) e)"
proof -
  let ?st0 = "initial_state num_agents tf0"
  let ?ok = "\<lambda>j. \<exists>r. run_eecbs timeout (fst (segment_reply slv first seqs j)) = Inr r"
  have st0: "temp_files ?st0 = tf0" "segment_results ?st0 = []"
    by (simp_all add: initial_state_def)
  from fail have nok: "\<not> ?ok i" by simp
  from loop_outcome_cases [of slv timeout num_agents seqs first n ?st0]
  consider (F) "\<forall>j<n. ?ok j"
    | (A) i' st f' stp where "i' < n"
        "segment_loop slv timeout num_agents seqs first [0..<n] ?st0
           = Aborted st (SegmentFailed (i' + 1) (error f'))"
        "run_eecbs timeout (fst (segment_reply slv first seqs i')) = Inl f'"
        "\<forall>j<i'. ?ok j"
        "segment_loop slv timeout num_agents seqs first [0..<i'] ?st0 = Finished stp"
        "complete_paths st = complete_paths stp"
        "segment_results st = segment_results stp"
        "length (segment_results st) = length (segment_results ?st0) + i'"
        "temp_files st = temp_files ?st0 @ concat (map (segment_files first seqs) [0..<Suc i'])"
    | (R) i' e where "i' < n"
        "segment_loop slv timeout num_agents seqs first [0..<n] ?st0
           = Raised (temp_files ?st0 @ concat (map (segment_files first seqs) [0..<Suc i'])) e"
        "\<forall>j\<le>i'. ?ok j"
    by blast
  then show ?thesis
  proof cases
    case F
    with i nok show ?thesis by blast
  next
    case A
    have "i' = i"
    proof (rule ccontr)
      assume "i' \<noteq> i"
      then consider "i' < i" | "i < i'" by linarith
      then show False
      proof cases
        case 1
        with before A(3) show False by auto
      next
        case 2
        with A(4) nok show False by blast
      qed
    qed
    with A fail have "f' = f" by simp
    with A \<open>i' = i\<close> st0 show ?thesis by auto
  next
    case R
    have "i' < i"
    proof (rule ccontr)
      assume "\<not> i' < i"
      then have "i \<le> i'" by simp
      with R(3) nok show False by blast
    qed
    with R st0 show ?thesis by auto
  qed
qed


lemma route4_replies:
  "run_eecbs 60 (fst (segment_reply timeout_from_third example_agent0 example_route4 0))
     = Inr \<lparr>cost = None, result_output = ''Succeed'', stdout = ''Succeed'', stderr = []\<rparr>"
  "run_eecbs 60 (fst (segment_reply timeout_from_third example_agent0 example_route4 (Suc 0)))
     = Inr \<lparr>cost = None, result_output = ''Succeed'', stdout = ''Succeed'', stderr = []\<rparr>"
  by (simp_all add: segment_reply_def timeout_from_third_def direct_solver_def
      run_eecbs_Succeed)

lemma route4_timeout:
  "run_eecbs 60 (fst (segment_reply timeout_from_third example_agent0 example_route4 2))
     = Inl \<lparr>error = TimedOut 60, failure_stderr = None\<rparr>"
  by (simp add: segment_reply_def timeout_from_third_def run_eecbs_def)

lemma run_eecbs_TimeoutExpired:
  "run_eecbs t TimeoutExpired = Inl \<lparr>error = TimedOut t, failure_stderr = None\<rparr>"
  by (simp add: run_eecbs_def)

lemma route4_not_raised:
  "segment_loop timeout_from_third 60 1 example_route4 example_agent0 [0..<4]
     (initial_state 1 []) \<noteq> Raised tf e"
  by (simp add: upt_rec run_segment_def timeout_from_third_def direct_solver_def
      run_eecbs_Succeed agent_pairs_of_def example_route4_def
      create_temp_scenario_multi_def enumerate_eq_zip parse_paths_file_def stitch_agent_def
      err_bind_def initial_state_def example_agent0_def cost_or_zero_def path_of_def
      run_eecbs_TimeoutExpired Let_def)

lemma abort_at_third_of_four_segments:
  "(2::nat) < 4
   \<and> run_eecbs 60 (fst (segment_reply timeout_from_third example_agent0 example_route4 2))
       = Inl \<lparr>error = TimedOut 60, failure_stderr = None\<rparr>
   \<and> (\<exists>r. run_eecbs 60 (fst (segment_reply timeout_from_third example_agent0 example_route4 0))
            = Inr r)
   \<and> (\<exists>r. run_eecbs 60 (fst (segment_reply timeout_from_third example_agent0 example_route4 1))
            = Inr r)
   \<and> ((\<exists>st. segment_loop timeout_from_third 60 1 example_route4 example_agent0 [0..<4]
                (initial_state 1 []) = Aborted st (SegmentFailed 3 (TimedOut 60))
            \<and> length (segment_results st) = 2
            \<and> temp_files st
                = concat (map (segment_files example_agent0 example_route4) [0..<3])))"
proof -
  let ?loop = "segment_loop timeout_from_third 60 1 example_route4 example_agent0 [0..<4]
                (initial_state 1 [])"
  have c3: "\<exists>r. run_eecbs 60 (fst (segment_reply timeout_from_third example_agent0
              example_route4 0)) = Inr r"
    using route4_replies(1) by simp
  have c4: "\<exists>r. run_eecbs 60 (fst (segment_reply timeout_from_third example_agent0
              example_route4 1)) = Inr r"
    using route4_replies(2) by simp
  have before: "\<forall>j<2. \<exists>r.
      run_eecbs 60 (fst (segment_reply timeout_from_third example_agent0 example_route4 j)) = Inr r"
  proof (intro allI impI)
    fix j :: nat assume "j < 2"
    then have "j = 0 \<or> j = 1" by auto
    with c3 c4 show "\<exists>r. run_eecbs 60 (fst (segment_reply timeout_from_third example_agent0
        example_route4 j)) = Inr r"
      by blast
  qed
  have c1: "(2::nat) < 4" by simp
  from abort_or_raise_before_first_failing_segment [OF c1 route4_timeout before, of 1 "[]"]
  have "(\<exists>st stp. ?loop = Aborted st (SegmentFailed 3 (TimedOut 60))
            \<and> temp_files st
                = concat (map (segment_files example_agent0 example_route4) [0..<3])
            \<and> segment_loop timeout_from_third 60 1 example_route4 example_agent0 [0..<2]
                (initial_state 1 []) = Finished stp
            \<and> complete_paths st = complete_paths stp
            \<and> segment_results st = segment_results stp
            \<and> length (segment_results st) = 2)
        \<or> (\<exists>j<2. \<exists>e. ?loop
              = Raised (concat (map (segment_files example_agent0 example_route4) [0..<Suc j])) e)"
    by simp
  with route4_not_raised
  have c5: "\<exists>st. ?loop = Aborted st (SegmentFailed 3 (TimedOut 60))
            \<and> length (segment_results st) = 2
            \<and> temp_files st
                = concat (map (segment_files example_agent0 example_route4) [0..<3])"
    by blast
  show ?thesis
    by (intro conjI c1 route4_timeout c3 c4 c5)
qed

lemma routes3_replies:
  "run_eecbs 60 (fst (segment_reply partial_then_timeout example_agent0 example_routes3 0))
     = Inr \<lparr>cost = None, result_output = ''Succeed'', stdout = ''Succeed'', stderr = []\<rparr>"
  "run_eecbs 60 (fst (segment_reply partial_then_timeout example_agent0 example_routes3 (Suc 0)))
     = Inr \<lparr>cost = None, result_output = ''Succeed'', stdout = ''Succeed'', stderr = []\<rparr>"
  by (simp_all add: segment_reply_def partial_then_timeout_def direct_solver_def
      run_eecbs_Succeed)

lemma routes3_timeout:
  "run_eecbs 60 (fst (segment_reply partial_then_timeout example_agent0 example_routes3 2))
     = Inl \<lparr>error = TimedOut 60, failure_stderr = None\<rparr>"
  by (simp add: segment_reply_def partial_then_timeout_def run_eecbs_TimeoutExpired)

lemma routes3_loop:
  "segment_loop partial_then_timeout 60 2 example_routes3 example_agent0 [0..<3]
     (initial_state 2 [])
   = Raised (segment_files example_agent0 example_routes3 0
             @ segment_files example_agent0 example_routes3 (Suc 0)) IndexError"
  by (simp add: upt_rec run_segment_def partial_then_timeout_def direct_solver_def
      run_eecbs_Succeed agent_pairs_of_def example_routes3_def segment_files_def
      create_temp_scenario_multi_def enumerate_eq_zip parse_paths_file_def stitch_agent_def
      err_bind_def initial_state_def example_agent0_def replicate_2 cost_or_zero_def
      path_of_def Let_def)

text \<open>
  C4. For every sequence of per-segment outcomes the run is to abort on the first failing
  segment, reporting its index and reason, with no later segment attempted. On the code
  this holds only as long as no exception is raised while stitching an earlier segment
  (\<open>abort_or_raise_before_first_failing_segment\<close>). With the three-segment example, the
  solver calls for segments 0 and 1 succeed and the call for segment 2 would time out, so
  segment 2 is the first failing one; but the paths file of segment 1 has no record for
  agent 1, line 366 raises \<open>IndexError\<close> while segment 1 is stitched, and the run ends there
  without reporting \<open>"Segment 3 failed: ..."\<close>.
\<close>

theorem raise_before_first_failing_segment:
  "run_eecbs 60 (fst (segment_reply partial_then_timeout example_agent0 example_routes3 0))
     = Inr \<lparr>cost = None, result_output = ''Succeed'', stdout = ''Succeed'', stderr = []\<rparr>
   \<and> run_eecbs 60 (fst (segment_reply partial_then_timeout example_agent0 example_routes3 1))
     = Inr \<lparr>cost = None, result_output = ''Succeed'', stdout = ''Succeed'', stderr = []\<rparr>
   \<and> run_eecbs 60 (fst (segment_reply partial_then_timeout example_agent0 example_routes3 2))
     = Inl \<lparr>error = TimedOut 60, failure_stderr = None\<rparr>
   \<and> num_segments_of example_routes3 = Inr 3
   \<and> segment_loop partial_then_timeout 60 2 example_routes3 example_agent0 [0..<3]
         (initial_state 2 [])
       = Raised (segment_files example_agent0 example_routes3 0
                 @ segment_files example_agent0 example_routes3 1) IndexError"
  using routes3_replies routes3_timeout routes3_loop
  by (simp add: num_segments_of_def example_routes3_def)

subsection \<open>Failure on the first segment\<close>

lemma run_waypoint_scenario_selected:
  assumes "fst (parse_scenarios lines) \<noteq> []"
    and "scenario_index < int (length (fst (parse_scenarios lines)))"
    and "agents = py_slice (fst (parse_scenarios lines)) scenario_index
                    (scenario_index + num_agents)"
    and "num_agents \<le> int (length agents)"
    and "num_segments_of (seqs_of agents) = Inr n"
  shows "run_waypoint_scenario slv lines scenario_index num_agents timeout tf0 =
     (case segment_loop slv timeout num_agents (seqs_of agents) (hd agents) [0..<n]
             (initial_state num_agents tf0) of
        Raised tf e \<Rightarrow> (tf, Inl e)
      | Aborted st e \<Rightarrow> (temp_files st, Inr (Failure e))
      | Finished st \<Rightarrow>
          (temp_files st,
           Inr (Success \<lparr>result_agents = agents,
                  result_total_cost = total_cost st,
                  result_segment_results = segment_results st,
                  result_complete_paths = complete_paths st,
                  result_num_segments = n,
                  result_num_agents = num_agents\<rparr>)))"
  using assms(1,2,4,5) unfolding assms(3)
  by (simp add: run_waypoint_scenario_def Let_def)

lemma num_segments_of_Inr_nonempty:
  "num_segments_of (seqs_of agents) = Inr n \<Longrightarrow> agents \<noteq> []"
  by (auto simp: num_segments_of_def seqs_of_def)

lemma aborted_total_cost:
  assumes "segment_loop slv timeout num_agents seqs first [0..<n] st0
             = Aborted st (SegmentFailed (Suc i) e)"
  shows "total_cost st = total_cost st0 + (\<Sum>j<i. segment_cost_of slv timeout first seqs j)"
  using loop_outcome_cases [of slv timeout num_agents seqs first n st0] assms
  by auto

text \<open>
  C8. When the solver call for segment 0 fails (for a timeout, with the reason
  \<open>"EECBS timed out after {timeout} seconds"\<close>), the run returns the failure dictionary
  naming the first segment (\<open>"Segment 1 failed: ..."\<close>); that dictionary has neither
  \<open>complete_paths\<close> nor \<open>total_cost\<close>, and at the moment of the return every assembled path
  is empty, \<open>total_cost\<close> is 0 and no segment result is recorded. Whatever the solver does,
  \<open>total_cost\<close> at a failure of segment \<open>i\<close> is the sum of the costs of segments \<open>0..i-1\<close>.
\<close>

theorem failure_on_first_segment:
  assumes "fst (parse_scenarios lines) \<noteq> []"
    and "scenario_index < int (length (fst (parse_scenarios lines)))"
    and "agents = py_slice (fst (parse_scenarios lines)) scenario_index
                    (scenario_index + num_agents)"
    and "num_agents \<le> int (length agents)"
    and "num_segments_of (seqs_of agents) = Inr n"
    and fail: "run_eecbs timeout (fst (segment_reply slv (hd agents) (seqs_of agents) 0)) = Inl f"
  shows "run_waypoint_scenario slv lines scenario_index num_agents timeout tf0
           = (tf0 @ segment_files (hd agents) (seqs_of agents) 0,
              Inr (Failure (SegmentFailed 1 (error f))))
       \<and> get_complete_paths (Failure (SegmentFailed 1 (error f))) = None
       \<and> get_total_cost (Failure (SegmentFailed 1 (error f))) = None
       \<and> segment_loop slv timeout num_agents (seqs_of agents) (hd agents) [0..<n]
             (initial_state num_agents tf0)
           = Aborted \<lparr>complete_paths = replicate (nat num_agents) [], total_cost = 0,
                      segment_results = [],
                      temp_files = tf0 @ segment_files (hd agents) (seqs_of agents) 0\<rparr>
               (SegmentFailed 1 (error f))
       \<and> (fst (segment_reply slv (hd agents) (seqs_of agents) 0) = TimeoutExpired
            \<longrightarrow> error f = TimedOut timeout)
       \<and> (\<forall>slv' i st e.
             segment_loop slv' timeout num_agents (seqs_of agents) (hd agents) [0..<n]
               (initial_state num_agents tf0) = Aborted st (SegmentFailed (Suc i) e)
             \<longrightarrow> total_cost st
                 = (\<Sum>j<i. segment_cost_of slv' timeout (hd agents) (seqs_of agents) j))"
proof -
  let ?loop = "segment_loop slv timeout num_agents (seqs_of agents) (hd agents) [0..<n]
             (initial_state num_agents tf0)"
  let ?ab = "Aborted \<lparr>complete_paths = replicate (nat num_agents) [], total_cost = 0,
                      segment_results = [],
                      temp_files = tf0 @ segment_files (hd agents) (seqs_of agents) 0\<rparr>
               (SegmentFailed 1 (error f))"
  from assms(5) have ne: "agents \<noteq> []" by (rule num_segments_of_Inr_nonempty)
  from num_segments_of_Inr(2) [OF ne assms(5)] obtain m where n: "n = Suc m"
    by (cases n) auto
  have "[0..<n] = 0 # [Suc 0..<n]" using n by (simp add: upt_rec)
  then have loop: "?loop = ?ab"
    using fail by (simp add: run_segment_eq initial_state_def)
  have run: "run_waypoint_scenario slv lines scenario_index num_agents timeout tf0
           = (tf0 @ segment_files (hd agents) (seqs_of agents) 0,
              Inr (Failure (SegmentFailed 1 (error f))))"
    using run_waypoint_scenario_selected [OF assms(1-5), of slv timeout tf0] loop by simp
  have to: "fst (segment_reply slv (hd agents) (seqs_of agents) 0) = TimeoutExpired
            \<longrightarrow> error f = TimedOut timeout"
    using fail by (auto simp: run_eecbs_TimeoutExpired)
  have tc: "\<forall>slv' i st e.
             segment_loop slv' timeout num_agents (seqs_of agents) (hd agents) [0..<n]
               (initial_state num_agents tf0) = Aborted st (SegmentFailed (Suc i) e)
             \<longrightarrow> total_cost st
                 = (\<Sum>j<i. segment_cost_of slv' timeout (hd agents) (seqs_of agents) j)"
  proof (intro allI impI)
    fix slv' i st e
    assume "segment_loop slv' timeout num_agents (seqs_of agents) (hd agents) [0..<n]
               (initial_state num_agents tf0) = Aborted st (SegmentFailed (Suc i) e)"
    from aborted_total_cost [OF this]
    show "total_cost st = (\<Sum>j<i. segment_cost_of slv' timeout (hd agents) (seqs_of agents) j)"
      by (simp add: initial_state_def)
  qed
  show ?thesis
    by (intro conjI run loop to tc) (simp_all add: get_complete_paths_def get_total_cost_def)
qed

theorem failure_on_first_segment_witness:
  "fst (parse_scenarios example_lines) = [example_agent0, example_agent1]
   \<and> py_slice (fst (parse_scenarios example_lines)) 0 (0 + 2) = [example_agent0, example_agent1]
   \<and> num_segments_of (seqs_of [example_agent0, example_agent1]) = Inr 2
   \<and> fst (segment_reply always_timeout example_agent0
             (seqs_of [example_agent0, example_agent1]) 0) = TimeoutExpired
   \<and> snd (run_waypoint_scenario always_timeout example_lines 0 2 60 [])
       = Inr (Failure (SegmentFailed 1 (TimedOut 60)))
   \<and> (\<exists>tf. segment_loop always_timeout 60 2 (seqs_of [example_agent0, example_agent1])
               example_agent0 [0..<2] (initial_state 2 [])
            = Aborted \<lparr>complete_paths = [[], []], total_cost = 0, segment_results = [],
                       temp_files = tf\<rparr> (SegmentFailed 1 (TimedOut 60)))"
proof -
  let ?agents = "[example_agent0, example_agent1]"
  have p: "fst (parse_scenarios example_lines) = ?agents" by (simp add: example_parse)
  have h1: "fst (parse_scenarios example_lines) \<noteq> []" by (simp add: p)
  have h2: "(0::int) < int (length (fst (parse_scenarios example_lines)))" by (simp add: p)
  have h3: "?agents = py_slice (fst (parse_scenarios example_lines)) 0 (0 + 2)"
    by (simp add: p example_slice)
  have h4: "(2::int) \<le> int (length ?agents)" by simp
  have r: "fst (segment_reply always_timeout example_agent0 (seqs_of ?agents) 0) = TimeoutExpired"
    by (simp add: segment_reply_def always_timeout_def)
  have h6: "run_eecbs 60 (fst (segment_reply always_timeout (hd ?agents) (seqs_of ?agents) 0))
      = Inl \<lparr>error = TimedOut 60, failure_stderr = None\<rparr>"
    using r by (simp add: run_eecbs_TimeoutExpired)
  note T = failure_on_first_segment [OF h1 h2 h3 h4 example_num_segments h6, of "[]"]
  from T have a: "snd (run_waypoint_scenario always_timeout example_lines 0 2 60 [])
       = Inr (Failure (SegmentFailed 1 (TimedOut 60)))"
    by simp
  from T have b: "\<exists>tf. segment_loop always_timeout 60 2 (seqs_of ?agents)
               example_agent0 [0..<2] (initial_state 2 [])
            = Aborted \<lparr>complete_paths = [[], []], total_cost = 0, segment_results = [],
                       temp_files = tf\<rparr> (SegmentFailed 1 (TimedOut 60))"
    by (simp add: replicate_2)
  show ?thesis
    by (intro conjI p h3 [symmetric] example_num_segments r a b)
qed

subsection \<open>The status line of the solver\<close>

lemma split_sep_from_nonempty: "split_sep_from w sep s \<noteq> []"
  by (induction s arbitrary: w) auto

lemma split_sep_nonempty: "split_sep sep s \<noteq> []"
  by (simp add: split_sep_def split_sep_from_nonempty)

lemma contains_iff: "contains sub s \<longleftrightarrow> (\<exists>pre post. s = pre @ sub @ post)"
proof (induction s)
  case Nil
  show ?case by auto
next
  case (Cons c cs)
  show ?case
  proof
    assume "contains sub (c # cs)"
    then consider "take (length sub) (c # cs) = sub" | "contains sub cs" by auto
    then show "\<exists>pre post. c # cs = pre @ sub @ post"
    proof cases
      case 1
      then have "c # cs = [] @ sub @ drop (length sub) (c # cs)"
        by (metis append_Nil append_take_drop_id)
      then show ?thesis by blast
    next
      case 2
      with Cons obtain pre post where "cs = pre @ sub @ post" by blast
      then have "c # cs = (c # pre) @ sub @ post" by simp
      then show ?thesis by blast
    qed
  next
    assume "\<exists>pre post. c # cs = pre @ sub @ post"
    then obtain pre post where e: "c # cs = pre @ sub @ post" by blast
    show "contains sub (c # cs)"
    proof (cases pre)
      case Nil
      with e have "take (length sub) (c # cs) = sub" by simp
      then show ?thesis by simp
    next
      case (Cons p pre')
      with e have "cs = pre' @ sub @ post" by simp
      with Cons.IH have "contains sub cs" by blast
      then show ?thesis by simp
    qed
  qed
qed

text \<open>
  C7. \<open>_run_eecbs\<close> reports success only for a process that returned with exit status 0 and
  whose last output line (of the stripped standard output) contains the marker \<open>Succeed\<close>;
  with exit status 0 and no marker in that line the outcome is the failure
  \<open>"EECBS did not succeed: {line}"\<close>.
\<close>

theorem success_requires_marker:
  "(run_eecbs timeout proc = Inr result \<longrightarrow>
      (\<exists>out err. proc = Completed 0 out err
         \<and> contains ''Succeed'' (last (split_sep (CHR 0x0A) (strip out)))
         \<and> result_output result = last (split_sep (CHR 0x0A) (strip out))))
   \<and> (\<not> contains ''Succeed'' (last (split_sep (CHR 0x0A) (strip out))) \<longrightarrow>
        run_eecbs timeout (Completed 0 out err)
          = Inl \<lparr>error = DidNotSucceed (last (split_sep (CHR 0x0A) (strip out))),
                 failure_stderr = None\<rparr>)"
  by (auto simp: run_eecbs_def Let_def split_sep_nonempty
      split: proc_result.splits if_splits sum.splits)

lemma run_eecbs_no_marker:
  "run_eecbs 60 (Completed 0 ''Timeout,-1'' [])
     = Inl \<lparr>error = DidNotSucceed ''Timeout,-1'', failure_stderr = None\<rparr>"
  by (simp add: run_eecbs_def strip_def py_isspace_def split_sep_def Let_def)

theorem success_requires_marker_witness:
  "run_eecbs 60 (Completed 0 ''Succeed'' [])
     = Inr \<lparr>cost = None, result_output = ''Succeed'', stdout = ''Succeed'', stderr = []\<rparr>
   \<and> contains ''Succeed'' (last (split_sep (CHR 0x0A) (strip ''Succeed'')))
   \<and> \<not> contains ''Succeed'' (last (split_sep (CHR 0x0A) (strip ''Timeout,-1'')))
   \<and> run_eecbs 60 (Completed 0 ''Timeout,-1'' [])
       = Inl \<lparr>error = DidNotSucceed ''Timeout,-1'', failure_stderr = None\<rparr>"
proof -
  have a: "run_eecbs 60 (Completed 0 ''Succeed'' [])
     = Inr \<lparr>cost = None, result_output = ''Succeed'', stdout = ''Succeed'', stderr = []\<rparr>"
    by (rule run_eecbs_Succeed)
  from a success_requires_marker [of 60 "Completed 0 ''Succeed'' []"
      "\<lparr>cost = None, result_output = ''Succeed'', stdout = ''Succeed'', stderr = []\<rparr>"]
  have b: "contains ''Succeed'' (last (split_sep (CHR 0x0A) (strip ''Succeed'')))"
    by simp
  have c: "\<not> contains ''Succeed'' (last (split_sep (CHR 0x0A) (strip ''Timeout,-1'')))"
    by (simp add: strip_def py_isspace_def split_sep_def)
  with success_requires_marker [of 60 undefined undefined "''Timeout,-1''" "[]"]
  have d: "run_eecbs 60 (Completed 0 ''Timeout,-1'' [])
       = Inl \<lparr>error = DidNotSucceed ''Timeout,-1'', failure_stderr = None\<rparr>"
    by (simp add: strip_def py_isspace_def split_sep_def)
  show ?thesis by (intro conjI a b c d)
qed

text \<open>
  C6, as stated, fails: with the marker present and a fifth comma-separated field that is
  not an integer literal, \<open>int(parts[4])\<close> raises \<open>ValueError\<close> inside the \<open>try\<close>, and the
  segment is reported as a failure (\<open>"Error running EECBS: ..."\<close>), not as a success with
  an absent cost.
\<close>

theorem unparsable_cost_is_failure:
  "contains ''Succeed'' ''Succeed,1,2,3,n/a''
   \<and> split_sep (CHR '','') ''Succeed,1,2,3,n/a'' ! 4 = ''n/a''
   \<and> run_eecbs 60 (Completed 0 ''Succeed,1,2,3,n/a'' [])
       = Inl \<lparr>error = ErrorRunning (ValueError ''n/a''), failure_stderr = None\<rparr>"
  by (simp add: run_eecbs_def strip_def py_isspace_def py_int_def c_strip_def c_isspace_def
      drop_sign_def is_digit_def split_sep_def Let_def)

text \<open>
  C6, amended. On a successful status line the cost is read from the fifth comma-separated
  field: when the line has fewer than five fields the cost is absent and the segment is a
  success; when the field is there and \<open>int()\<close> accepts it the cost is that integer; when
  the field is there and \<open>int()\<close> rejects it the segment is a failure. Every solved segment
  adds its cost to \<open>total_cost\<close>, and 0 when the cost is absent.
\<close>

theorem cost_field_of_status_line:
  assumes "contains ''Succeed'' (last (split_sep (CHR 0x0A) (strip out)))"
  shows "(length (split_sep (CHR '','') (last (split_sep (CHR 0x0A) (strip out)))) < 5 \<longrightarrow>
            run_eecbs timeout (Completed 0 out err)
              = Inr \<lparr>cost = None, result_output = last (split_sep (CHR 0x0A) (strip out)),
                     stdout = out, stderr = err\<rparr>)
       \<and> (\<forall>c. length (split_sep (CHR '','') (last (split_sep (CHR 0x0A) (strip out)))) \<ge> 5
              \<and> py_int (split_sep (CHR '','') (last (split_sep (CHR 0x0A) (strip out))) ! 4) = Inr c
            \<longrightarrow> run_eecbs timeout (Completed 0 out err)
              = Inr \<lparr>cost = Some c, result_output = last (split_sep (CHR 0x0A) (strip out)),
                     stdout = out, stderr = err\<rparr>)
       \<and> (\<forall>e. length (split_sep (CHR '','') (last (split_sep (CHR 0x0A) (strip out)))) \<ge> 5
              \<and> py_int (split_sep (CHR '','') (last (split_sep (CHR 0x0A) (strip out))) ! 4) = Inl e
            \<longrightarrow> run_eecbs timeout (Completed 0 out err)
              = Inl \<lparr>error = ErrorRunning e, failure_stderr = None\<rparr>)
       \<and> (\<forall>slv num_agents seqs first seg st st'.
             run_segment slv timeout num_agents seqs first seg st = Finished st' \<longrightarrow>
             (\<exists>result. run_eecbs timeout (fst (segment_reply slv first seqs seg)) = Inr result
                \<and> total_cost st'
                    = total_cost st + (case cost result of None \<Rightarrow> 0 | Some c \<Rightarrow> c)))"
proof (intro conjI allI impI)
  show "length (split_sep (CHR '','') (last (split_sep (CHR 0x0A) (strip out)))) < 5 \<Longrightarrow>
            run_eecbs timeout (Completed 0 out err)
              = Inr \<lparr>cost = None, result_output = last (split_sep (CHR 0x0A) (strip out)),
                     stdout = out, stderr = err\<rparr>"
    using assms by (simp add: run_eecbs_def Let_def split_sep_nonempty)
next
  fix c
  assume "length (split_sep (CHR '','') (last (split_sep (CHR 0x0A) (strip out)))) \<ge> 5
              \<and> py_int (split_sep (CHR '','') (last (split_sep (CHR 0x0A) (strip out))) ! 4) = Inr c"
  then show "run_eecbs timeout (Completed 0 out err)
              = Inr \<lparr>cost = Some c, result_output = last (split_sep (CHR 0x0A) (strip out)),
                     stdout = out, stderr = err\<rparr>"
    using assms by (simp add: run_eecbs_def Let_def split_sep_nonempty)
next
  fix e
  assume "length (split_sep (CHR '','') (last (split_sep (CHR 0x0A) (strip out)))) \<ge> 5
              \<and> py_int (split_sep (CHR '','') (last (split_sep (CHR 0x0A) (strip out))) ! 4) = Inl e"
  then show "run_eecbs timeout (Completed 0 out err)
              = Inl \<lparr>error = ErrorRunning e, failure_stderr = None\<rparr>"
    using assms by (simp add: run_eecbs_def Let_def split_sep_nonempty)
next
  fix slv num_agents seqs first seg st st'
  assume "run_segment slv timeout num_agents seqs first seg st = Finished st'"
  from run_segment_Finished [OF this]
  show "\<exists>result. run_eecbs timeout (fst (segment_reply slv first seqs seg)) = Inr result
                \<and> total_cost st'
                    = total_cost st + (case cost result of None \<Rightarrow> 0 | Some c \<Rightarrow> c)"
    by (auto simp: cost_or_zero_eq)
qed

lemma status_line_comment:
  "strip ''WDG+R+C+T+BP with AStar : Succeed,6,2.1e-05,0,7,6,6,6,''
     = ''WDG+R+C+T+BP with AStar : Succeed,6,2.1e-05,0,7,6,6,6,''"
  "split_sep (CHR 0x0A) ''WDG+R+C+T+BP with AStar : Succeed,6,2.1e-05,0,7,6,6,6,''
     = [''WDG+R+C+T+BP with AStar : Succeed,6,2.1e-05,0,7,6,6,6,'']"
  "contains ''Succeed'' ''WDG+R+C+T+BP with AStar : Succeed,6,2.1e-05,0,7,6,6,6,''"
  "split_sep (CHR '','') ''WDG+R+C+T+BP with AStar : Succeed,6,2.1e-05,0,7,6,6,6,''
     = [''WDG+R+C+T+BP with AStar : Succeed'', ''6'', ''2.1e-05'', ''0'', ''7'', ''6'', ''6'',
        ''6'', '''']"
  "py_int ''7'' = Inr 7"
  by (simp_all add: strip_def py_isspace_def split_sep_def py_int_def c_strip_def
      c_isspace_def drop_sign_def is_digit_def digits_value_def digit_val_def
      int_max_str_digits_def)

lemma status_line_short:
  "strip ''Succeed'' = ''Succeed''"
  "split_sep (CHR 0x0A) ''Succeed'' = [''Succeed'']"
  "contains ''Succeed'' ''Succeed''"
  "split_sep (CHR '','') ''Succeed'' = [''Succeed'']"
  by (simp_all add: strip_def py_isspace_def split_sep_def)

lemma status_line_bad:
  "strip ''Succeed,1,2,3,n/a'' = ''Succeed,1,2,3,n/a''"
  "split_sep (CHR 0x0A) ''Succeed,1,2,3,n/a'' = [''Succeed,1,2,3,n/a'']"
  "contains ''Succeed'' ''Succeed,1,2,3,n/a''"
  "split_sep (CHR '','') ''Succeed,1,2,3,n/a'' = [''Succeed'', ''1'', ''2'', ''3'', ''n/a'']"
  "py_int ''n/a'' = Inl (ValueError ''n/a'')"
  by (simp_all add: strip_def py_isspace_def split_sep_def py_int_def c_strip_def
      c_isspace_def drop_sign_def is_digit_def)

theorem cost_field_of_status_line_witness:
  "contains ''Succeed'' (last (split_sep (CHR 0x0A) (strip ''Succeed'')))
   \<and> run_eecbs 60 (Completed 0 ''Succeed'' [])
       = Inr \<lparr>cost = None, result_output = ''Succeed'', stdout = ''Succeed'', stderr = []\<rparr>
   \<and> run_eecbs 60 (Completed 0 ''WDG+R+C+T+BP with AStar : Succeed,6,2.1e-05,0,7,6,6,6,'' [])
       = Inr \<lparr>cost = Some 7,
              result_output = ''WDG+R+C+T+BP with AStar : Succeed,6,2.1e-05,0,7,6,6,6,'',
              stdout = ''WDG+R+C+T+BP with AStar : Succeed,6,2.1e-05,0,7,6,6,6,'',
              stderr = []\<rparr>
   \<and> run_eecbs 60 (Completed 0 ''Succeed,1,2,3,n/a'' [])
       = Inl \<lparr>error = ErrorRunning (ValueError ''n/a''), failure_stderr = None\<rparr>
   \<and> (\<exists>st'. run_segment direct_solver 60 2 [[(0,0),(2,2),(4,4)], [(1,1),(3,3)]]
               example_agent0 0 (initial_state 2 []) = Finished st'
          \<and> total_cost st' = 0)"
proof -
  have h1: "contains ''Succeed'' (last (split_sep (CHR 0x0A) (strip ''Succeed'')))"
    by (simp add: status_line_short)
  have h2: "contains ''Succeed'' (last (split_sep (CHR 0x0A)
      (strip ''WDG+R+C+T+BP with AStar : Succeed,6,2.1e-05,0,7,6,6,6,'')))"
    by (simp add: status_line_comment)
  have h3: "contains ''Succeed'' (last (split_sep (CHR 0x0A) (strip ''Succeed,1,2,3,n/a'')))"
    by (simp add: status_line_bad)
  have a: "run_eecbs 60 (Completed 0 ''Succeed'' [])
       = Inr \<lparr>cost = None, result_output = ''Succeed'', stdout = ''Succeed'', stderr = []\<rparr>"
    using cost_field_of_status_line [OF h1, of 60 "[]"] by (simp add: status_line_short)
  have b: "run_eecbs 60 (Completed 0 ''WDG+R+C+T+BP with AStar : Succeed,6,2.1e-05,0,7,6,6,6,'' [])
       = Inr \<lparr>cost = Some 7,
              result_output = ''WDG+R+C+T+BP with AStar : Succeed,6,2.1e-05,0,7,6,6,6,'',
              stdout = ''WDG+R+C+T+BP with AStar : Succeed,6,2.1e-05,0,7,6,6,6,'',
              stderr = []\<rparr>"
    using cost_field_of_status_line [OF h2, of 60 "[]"] by (simp add: status_line_comment)
  have c: "run_eecbs 60 (Completed 0 ''Succeed,1,2,3,n/a'' [])
       = Inl \<lparr>error = ErrorRunning (ValueError ''n/a''), failure_stderr = None\<rparr>"
    using cost_field_of_status_line [OF h3, of 60 "[]"] by (simp add: status_line_bad)
  obtain st' where st': "run_segment direct_solver 60 2 [[(0,0),(2,2),(4,4)], [(1,1),(3,3)]]
               example_agent0 0 (initial_state 2 []) = Finished st'"
    by (simp add: run_segment_def direct_solver_def run_eecbs_Succeed agent_pairs_of_def
      create_temp_scenario_multi_def enumerate_eq_zip parse_paths_file_def stitch_agent_def
      err_bind_def initial_state_def example_agent0_def replicate_2 cost_or_zero_def
      path_of_def upt_rec Let_def)
  have r: "run_eecbs 60 (fst (segment_reply direct_solver example_agent0
      [[(0,0),(2,2),(4,4)], [(1,1),(3,3)]] 0))
      = Inr \<lparr>cost = None, result_output = ''Succeed'', stdout = ''Succeed'', stderr = []\<rparr>"
    by (simp add: segment_reply_def direct_solver_def run_eecbs_Succeed)
  from cost_field_of_status_line [OF h1, of 60 "[]"] st'
  obtain result where
    "run_eecbs 60 (fst (segment_reply direct_solver example_agent0
       [[(0,0),(2,2),(4,4)], [(1,1),(3,3)]] 0)) = Inr result"
    "total_cost st' = total_cost (initial_state 2 [])
       + (case cost result of None \<Rightarrow> 0 | Some c \<Rightarrow> c)"
    by blast
  with r have d: "total_cost st' = 0"
    by (simp add: initial_state_def)
  show ?thesis using st' d by (intro conjI h1 a b c) blast
qed

subsection \<open>The scenario parser\<close>

lemma parse_lines_append:
  "parse_lines (xs @ ys) =
     (fst (parse_lines xs) @ fst (parse_lines ys), snd (parse_lines xs) @ snd (parse_lines ys))"
  by (induction xs) (auto split: line_result.splits)

lemma parse_waypoints_odd_trailing:
  "even (length cs) \<Longrightarrow> parse_waypoints (cs @ [c]) = parse_waypoints cs"
  by (induction cs rule: parse_waypoints.induct) (auto simp: err_bind_def split: sum.splits)

lemma split_sep_Nil: "split_sep sep [] = [[]]"
  by (simp add: split_sep_def)

lemma parse_line_fields:
  assumes "length (split_sep (CHR 0x09) (strip l)) \<ge> 10"
  shows "parse_line l =
           (case parse_parts (split_sep (CHR 0x09) (strip l)) of
              Inl e \<Rightarrow> Rejected (strip l) e
            | Inr sc \<Rightarrow> Parsed sc)"
proof -
  from assms have "strip l \<noteq> []" by (auto simp: split_sep_Nil)
  with assms show ?thesis by (simp add: parse_line_def Let_def)
qed

lemma parse_parts_Inr:
  assumes "parse_parts ps = Inr sc"
  shows "(\<forall>i\<in>{0, 2, 3, 4, 5, 6, 7, 9}. \<exists>v. py_int (ps ! i) = Inr v)
       \<and> (\<exists>t. py_float (ps ! 8) = Inr t)
       \<and> Inr (waypoints sc)
           = (if length ps > 10 then parse_waypoints (split_ws (ps ! 10)) else Inr [])
       \<and> py_int (ps ! 9) = Inr (num_waypoints sc)"
  using assms
  by (auto simp: parse_parts_def err_bind_def split: sum.splits if_splits)

lemma parse_parts_update9:
  assumes "length ps \<ge> 10" and "py_int (ps ! 9) = Inr n1" and "py_int f = Inr n2"
  shows "parse_parts (ps[9 := f]) =
           (case parse_parts ps of Inl e \<Rightarrow> Inl e
            | Inr sc \<Rightarrow> Inr (sc\<lparr>num_waypoints := n2\<rparr>))"
  using assms
  by (simp add: parse_parts_def err_bind_def split: sum.splits)


lemma py_int_cases: "(\<exists>e. py_int s = Inl e) \<or> (\<exists>v. py_int s = Inr v)"
  by (cases "py_int s") auto

lemma parse_waypoints_Inl_iff:
  "(\<exists>e. parse_waypoints cs = Inl e)
     \<longleftrightarrow> (\<exists>i < 2 * (length cs div 2). \<exists>e. py_int (cs ! i) = Inl e)"
proof (induction cs rule: parse_waypoints.induct)
  case (1 a b rest)
  let ?bad = "\<lambda>xs i. \<exists>e. py_int (xs ! i) = Inl e"
  have len: "2 * (length (a # b # rest) div 2) = Suc (Suc (2 * (length rest div 2)))"
    by simp
  have split: "(\<exists>i < Suc (Suc (2 * (length rest div 2))). ?bad (a # b # rest) i)
      \<longleftrightarrow> (?bad [a] 0 \<or> ?bad [b] 0 \<or> (\<exists>i < 2 * (length rest div 2). ?bad rest i))"
  proof
    assume "\<exists>i < Suc (Suc (2 * (length rest div 2))). ?bad (a # b # rest) i"
    then obtain i where i: "i < Suc (Suc (2 * (length rest div 2)))" "?bad (a # b # rest) i"
      by blast
    show "?bad [a] 0 \<or> ?bad [b] 0 \<or> (\<exists>i < 2 * (length rest div 2). ?bad rest i)"
    proof (cases i)
      case 0
      with i show ?thesis by simp
    next
      case (Suc j)
      show ?thesis
      proof (cases j)
        case 0
        with Suc i show ?thesis by simp
      next
        case (Suc k)
        with \<open>i = Suc j\<close> i have "k < 2 * (length rest div 2)" "?bad rest k" by simp_all
        then show ?thesis by blast
      qed
    qed
  next
    assume "?bad [a] 0 \<or> ?bad [b] 0 \<or> (\<exists>i < 2 * (length rest div 2). ?bad rest i)"
    then consider "?bad [a] 0" | "?bad [b] 0" | i where "i < 2 * (length rest div 2)" "?bad rest i"
      by blast
    then show "\<exists>i < Suc (Suc (2 * (length rest div 2))). ?bad (a # b # rest) i"
    proof cases
      case 1
      then have "?bad (a # b # rest) 0" by simp
      then show ?thesis by blast
    next
      case 2
      then have "?bad (a # b # rest) (Suc 0)" by simp
      then show ?thesis by (intro exI [of _ "Suc 0"]) simp
    next
      case 3
      then have "?bad (a # b # rest) (Suc (Suc i))" by simp
      with 3 show ?thesis by (intro exI [of _ "Suc (Suc i)"]) simp
    qed
  qed
  have "(\<exists>e. parse_waypoints (a # b # rest) = Inl e)
      \<longleftrightarrow> (?bad [a] 0 \<or> ?bad [b] 0 \<or> (\<exists>e. parse_waypoints rest = Inl e))"
    by (auto simp: err_bind_def split: sum.splits)
  also have "\<dots> \<longleftrightarrow> (?bad [a] 0 \<or> ?bad [b] 0 \<or> (\<exists>i < 2 * (length rest div 2). ?bad rest i))"
    using "1.IH" by simp
  finally show ?case using split len by simp
qed simp_all

lemma parse_parts_Inl_iff:
  "(\<exists>e. parse_parts ps = Inl e) \<longleftrightarrow>
     ((\<exists>i\<in>{0, 2, 3, 4, 5, 6, 7, 9}. \<exists>e. py_int (ps ! i) = Inl e)
      \<or> (\<exists>e. py_float (ps ! 8) = Inl e)
      \<or> (length ps > 10 \<and> (\<exists>e. parse_waypoints (split_ws (ps ! 10)) = Inl e)))"
  by (auto simp: parse_parts_def err_bind_def split: sum.splits if_splits)

text \<open>
  C9, as stated, fails: a line with fewer than ten tab-separated fields is dropped by the
  \<open>continue\<close> of line 47, which prints nothing. A file whose only line after the version
  line has four fields gives no entry and no warning.
\<close>

theorem short_line_has_no_warning:
  "length (split_sep (CHR 0x09) (strip example_short_line)) = 4
   \<and> parse_scenarios [''version 1'', example_short_line] = ([], [])"
  by (simp add: parse_scenarios_def parse_line_def example_short_line_def strip_def
      py_isspace_def split_sep_def)

text \<open>
  C9, amended. A blank line or a line with fewer than ten tab-separated fields is skipped
  silently. A line with at least ten fields is rejected, with the warning that names the
  line followed by the error, exactly when one of its numeric fields does not parse: one of
  the eight integer fields, the float field, or a waypoint coordinate that has a partner;
  otherwise it is parsed. In every case the entries and the warnings of all the other lines
  are what they are without that line, so a rejected line never aborts loading. A trailing
  waypoint coordinate without a partner is dropped from the waypoint list, without being
  parsed.
\<close>

theorem rejected_lines_do_not_abort:
  "(parse_line l = Skipped \<longrightarrow>
      parse_scenarios (v # xs @ l # ys) = parse_scenarios (v # xs @ ys))
   \<and> (\<forall>line e. parse_line l = Rejected line e \<longrightarrow>
          line = strip l
        \<and> fst (parse_scenarios (v # xs @ l # ys)) = fst (parse_scenarios (v # xs @ ys))
        \<and> snd (parse_scenarios (v # xs @ l # ys))
            = snd (parse_lines xs) @ [WarningLine line, ErrorLine e] @ snd (parse_lines ys))
   \<and> (length (split_sep (CHR 0x09) (strip l)) < 10 \<longrightarrow> parse_line l = Skipped)
   \<and> (length (split_sep (CHR 0x09) (strip l)) \<ge> 10 \<longrightarrow>
        ((\<exists>e. parse_line l = Rejected (strip l) e) \<longleftrightarrow>
           ((\<exists>i\<in>{0, 2, 3, 4, 5, 6, 7, 9}.
                \<exists>e. py_int (split_sep (CHR 0x09) (strip l) ! i) = Inl e)
            \<or> (\<exists>e. py_float (split_sep (CHR 0x09) (strip l) ! 8) = Inl e)
            \<or> (length (split_sep (CHR 0x09) (strip l)) > 10
                \<and> (\<exists>i < 2 * (length (split_ws (split_sep (CHR 0x09) (strip l) ! 10)) div 2).
                      \<exists>e. py_int (split_ws (split_sep (CHR 0x09) (strip l) ! 10) ! i) = Inl e))))
        \<and> ((\<exists>sc. parse_line l = Parsed sc) \<longleftrightarrow>
             \<not> (\<exists>e. parse_line l = Rejected (strip l) e)))
   \<and> (even (length cs) \<longrightarrow> parse_waypoints (cs @ [c]) = parse_waypoints cs)"
proof (intro conjI allI impI)
  assume "parse_line l = Skipped"
  then show "parse_scenarios (v # xs @ l # ys) = parse_scenarios (v # xs @ ys)"
    by (simp add: parse_scenarios_def parse_lines_append)
next
  fix line e
  assume r: "parse_line l = Rejected line e"
  then show "line = strip l"
    by (auto simp: parse_line_def Let_def split: if_splits sum.splits)
  from r show "fst (parse_scenarios (v # xs @ l # ys)) = fst (parse_scenarios (v # xs @ ys))"
    by (simp add: parse_scenarios_def parse_lines_append)
  from r show "snd (parse_scenarios (v # xs @ l # ys))
            = snd (parse_lines xs) @ [WarningLine line, ErrorLine e] @ snd (parse_lines ys)"
    by (simp add: parse_scenarios_def parse_lines_append)
next
  assume "length (split_sep (CHR 0x09) (strip l)) < 10"
  then show "parse_line l = Skipped"
    by (simp add: parse_line_def Let_def)
next
  let ?ps = "split_sep (CHR 0x09) (strip l)"
  assume len: "length ?ps \<ge> 10"
  have R: "(\<exists>e. parse_line l = Rejected (strip l) e) \<longleftrightarrow> (\<exists>e. parse_parts ?ps = Inl e)"
    using parse_line_fields [OF len] by (cases "parse_parts ?ps") auto
  have P: "(\<exists>sc. parse_line l = Parsed sc) \<longleftrightarrow> \<not> (\<exists>e. parse_parts ?ps = Inl e)"
    using parse_line_fields [OF len] by (cases "parse_parts ?ps") auto
  show "(\<exists>e. parse_line l = Rejected (strip l) e) \<longleftrightarrow>
           ((\<exists>i\<in>{0, 2, 3, 4, 5, 6, 7, 9}. \<exists>e. py_int (?ps ! i) = Inl e)
            \<or> (\<exists>e. py_float (?ps ! 8) = Inl e)
            \<or> (length ?ps > 10
                \<and> (\<exists>i < 2 * (length (split_ws (?ps ! 10)) div 2).
                      \<exists>e. py_int (split_ws (?ps ! 10) ! i) = Inl e)))"
    unfolding R parse_parts_Inl_iff [of ?ps] parse_waypoints_Inl_iff [of "split_ws (?ps ! 10)"]
    by (rule refl)
  show "(\<exists>sc. parse_line l = Parsed sc) \<longleftrightarrow> \<not> (\<exists>e. parse_line l = Rejected (strip l) e)"
    unfolding R P by (rule refl)
next
  assume "even (length cs)"
  then show "parse_waypoints (cs @ [c]) = parse_waypoints cs"
    by (rule parse_waypoints_odd_trailing)
qed

text \<open>
  C10. Take two lines whose tab-separated fields are the same except for the tenth, the
  declared number of waypoints, which \<open>int()\<close> accepts in both. If one line is parsed then
  so is the other, with the same entry but for \<open>num_waypoints\<close>; the waypoints are exactly
  the pairs read from the eleventh field (none when the line has ten fields); if one line is
  rejected so is the other, with the same error. The declared count is never compared with
  the number of pairs.
\<close>

theorem declared_waypoint_count_ignored:
  assumes f2: "split_sep (CHR 0x09) (strip l2) = (split_sep (CHR 0x09) (strip l1))[9 := f]"
    and len: "length (split_sep (CHR 0x09) (strip l1)) \<ge> 10"
    and n1: "py_int (split_sep (CHR 0x09) (strip l1) ! 9) = Inr n1"
    and n2: "py_int f = Inr n2"
  shows "(\<forall>sc1. parse_line l1 = Parsed sc1 \<longrightarrow>
            parse_line l2 = Parsed (sc1\<lparr>num_waypoints := n2\<rparr>)
          \<and> Inr (waypoints sc1)
              = (if length (split_sep (CHR 0x09) (strip l1)) > 10
                 then parse_waypoints (split_ws (split_sep (CHR 0x09) (strip l1) ! 10))
                 else Inr []))
       \<and> (\<forall>sc2. parse_line l2 = Parsed sc2 \<longrightarrow>
            (\<exists>sc1. parse_line l1 = Parsed sc1 \<and> waypoints sc1 = waypoints sc2))
       \<and> (\<forall>line e. parse_line l1 = Rejected line e \<longrightarrow> parse_line l2 = Rejected (strip l2) e)"
proof -
  let ?ps = "split_sep (CHR 0x09) (strip l1)"
  from len f2 have len2: "length (split_sep (CHR 0x09) (strip l2)) \<ge> 10" by simp
  have p1: "parse_line l1 = (case parse_parts ?ps of
              Inl e \<Rightarrow> Rejected (strip l1) e | Inr sc \<Rightarrow> Parsed sc)"
    using len by (rule parse_line_fields)
  have p2: "parse_line l2 = (case parse_parts (?ps[9 := f]) of
              Inl e \<Rightarrow> Rejected (strip l2) e | Inr sc \<Rightarrow> Parsed sc)"
    using parse_line_fields [OF len2] f2 by simp
  note u = parse_parts_update9 [OF len n1 n2]
  show ?thesis
  proof (cases "parse_parts ?ps")
    case (Inl e)
    with p1 p2 u show ?thesis by simp
  next
    case (Inr sc)
    from parse_parts_Inr [OF this] have
      "Inr (waypoints sc) = (if length ?ps > 10 then parse_waypoints (split_ws (?ps ! 10))
                            else Inr [])"
      by blast
    with Inr p1 p2 u show ?thesis by simp
  qed
qed

lemma example_short_line_skipped: "parse_line example_short_line = Skipped"
  by (simp add: parse_line_def example_short_line_def strip_def py_isspace_def split_sep_def)

lemma example_bad_line_fields:
  "strip example_bad_line = butlast example_bad_line"
  "split_sep (CHR 0x09) (butlast example_bad_line)
     = [''0'', ''m'', ''8'', ''8'', ''x'', ''0'', ''4'', ''4'', ''0'', ''1'', ''2 2'']"
  "py_int ''x'' = Inl (ValueError ''x'')"
  by (simp_all add: example_bad_line_def strip_def py_isspace_def split_sep_def py_int_def
      c_strip_def c_isspace_def drop_sign_def is_digit_def)

lemma example_line0_declared7_fields:
  "strip example_line0_declared7 = butlast example_line0_declared7"
  "split_sep (CHR 0x09) (butlast example_line0_declared7)
     = [''0'', ''m'', ''8'', ''8'', ''0'', ''0'', ''4'', ''4'', ''0'', ''7'', ''2 2'']"
  "py_int ''7'' = Inr 7"
  by (simp_all add: example_line0_declared7_def strip_def py_isspace_def split_sep_def
      py_int_def c_strip_def c_isspace_def drop_sign_def is_digit_def digits_value_def
      digit_val_def int_max_str_digits_def)

lemma example_bad_waypoint_line_fields:
  "strip example_bad_waypoint_line = butlast example_bad_waypoint_line"
  "split_sep (CHR 0x09) (butlast example_bad_waypoint_line)
     = [''0'', ''m'', ''8'', ''8'', ''0'', ''0'', ''4'', ''4'', ''0'', ''2'', ''2 a 3 3'']"
  "split_ws ''2 a 3 3'' = [''2'', ''a'', ''3'', ''3'']"
  "py_int ''a'' = Inl (ValueError ''a'')"
  by (simp_all add: example_bad_waypoint_line_def strip_def py_isspace_def split_sep_def
      split_ws_def py_int_def c_strip_def c_isspace_def drop_sign_def is_digit_def)

theorem rejected_lines_do_not_abort_witness:
  "parse_line example_short_line = Skipped
   \<and> parse_scenarios (''version 1'' # [example_line0] @ example_short_line # [example_line1])
       = ([example_agent0, example_agent1], [])
   \<and> length (split_sep (CHR 0x09) (strip example_bad_line)) = 11
   \<and> py_int (split_sep (CHR 0x09) (strip example_bad_line) ! 4) = Inl (ValueError ''x'')
   \<and> fst (parse_scenarios (''version 1'' # [example_line0] @ example_bad_line # [example_line1]))
       = [example_agent0, example_agent1]
   \<and> (\<exists>e. snd (parse_scenarios
                 (''version 1'' # [example_line0] @ example_bad_line # [example_line1]))
            = [WarningLine (strip example_bad_line), ErrorLine e])
   \<and> length (split_sep (CHR 0x09) (strip example_bad_waypoint_line)) = 11
   \<and> py_int (split_ws (split_sep (CHR 0x09) (strip example_bad_waypoint_line) ! 10) ! 1)
       = Inl (ValueError ''a'')
   \<and> fst (parse_scenarios
             (''version 1'' # [example_line0] @ example_bad_waypoint_line # [example_line1]))
       = [example_agent0, example_agent1]
   \<and> (\<exists>e. snd (parse_scenarios
                 (''version 1'' # [example_line0] @ example_bad_waypoint_line # [example_line1]))
            = [WarningLine (strip example_bad_waypoint_line), ErrorLine e])
   \<and> (\<exists>sc. parse_line example_line0 = Parsed sc)
   \<and> parse_waypoints ([''2'', ''2''] @ [''9'']) = Inr [(2, 2)]"
proof -
  let ?with = "\<lambda>l. parse_scenarios (''version 1'' # [example_line0] @ l # [example_line1])"
  have base: "parse_scenarios (''version 1'' # [example_line0] @ [example_line1])
      = ([example_agent0, example_agent1], [])"
    using example_parse by (simp add: example_lines_def)
  have out: "snd (parse_lines [example_line0]) = []" "snd (parse_lines [example_line1]) = []"
    by (simp_all add: example_parse_line0 example_parse_line1)
  note T1 = rejected_lines_do_not_abort [of example_short_line "''version 1''"
      "[example_line0]" "[example_line1]" "[''2'', ''2'']" "''9''"]
  from T1 example_short_line_skipped base
  have a: "?with example_short_line = ([example_agent0, example_agent1], [])"
    by simp
  have w: "parse_waypoints ([''2'', ''2''] @ [''9'']) = Inr [(2, 2)]"
    using T1 by (simp add: err_bind_def py_int_digit)
  have l: "length (split_sep (CHR 0x09) (strip example_bad_line)) = 11"
    by (simp add: example_bad_line_fields)
  have f: "py_int (split_sep (CHR 0x09) (strip example_bad_line) ! 4) = Inl (ValueError ''x'')"
    by (simp add: example_bad_line_fields)
  note T2 = rejected_lines_do_not_abort [of example_bad_line "''version 1''"
      "[example_line0]" "[example_line1]" "[]" "''9''"]
  from l have l10: "length (split_sep (CHR 0x09) (strip example_bad_line)) \<ge> 10" by simp
  from f have "\<exists>i\<in>{0, 2, 3, 4, 5, 6, 7, 9}.
      \<exists>e. py_int (split_sep (CHR 0x09) (strip example_bad_line) ! i) = Inl e"
    by blast
  with T2 l10 obtain e where
    rej: "parse_line example_bad_line = Rejected (strip example_bad_line) e"
    by blast
  with T2 base out
  have b: "fst (?with example_bad_line) = [example_agent0, example_agent1]"
    and c: "snd (?with example_bad_line) = [WarningLine (strip example_bad_line), ErrorLine e]"
    by simp_all
  from c have c': "\<exists>e. snd (?with example_bad_line)
      = [WarningLine (strip example_bad_line), ErrorLine e]"
    by blast
  have l2: "length (split_sep (CHR 0x09) (strip example_bad_waypoint_line)) = 11"
    by (simp add: example_bad_waypoint_line_fields)
  have f2: "py_int (split_ws (split_sep (CHR 0x09) (strip example_bad_waypoint_line) ! 10) ! 1)
       = Inl (ValueError ''a'')"
    by (simp add: example_bad_waypoint_line_fields)
  note T3 = rejected_lines_do_not_abort [of example_bad_waypoint_line "''version 1''"
      "[example_line0]" "[example_line1]" "[]" "''9''"]
  from l2 have l210: "length (split_sep (CHR 0x09) (strip example_bad_waypoint_line)) \<ge> 10"
    and l211: "length (split_sep (CHR 0x09) (strip example_bad_waypoint_line)) > 10"
    by simp_all
  have "(1::nat) < 2 * (length (split_ws (split_sep (CHR 0x09)
      (strip example_bad_waypoint_line) ! 10)) div 2)"
    by (simp add: example_bad_waypoint_line_fields)
  with f2 have "\<exists>i < 2 * (length (split_ws (split_sep (CHR 0x09)
      (strip example_bad_waypoint_line) ! 10)) div 2).
      \<exists>e. py_int (split_ws (split_sep (CHR 0x09) (strip example_bad_waypoint_line) ! 10) ! i)
        = Inl e"
    by blast
  with T3 l210 l211 obtain e2 where
    rej2: "parse_line example_bad_waypoint_line = Rejected (strip example_bad_waypoint_line) e2"
    by blast
  with T3 base out
  have b2: "fst (?with example_bad_waypoint_line) = [example_agent0, example_agent1]"
    and c2: "snd (?with example_bad_waypoint_line)
      = [WarningLine (strip example_bad_waypoint_line), ErrorLine e2]"
    by simp_all
  from c2 have c2': "\<exists>e. snd (?with example_bad_waypoint_line)
      = [WarningLine (strip example_bad_waypoint_line), ErrorLine e]"
    by blast
  have p: "\<exists>sc. parse_line example_line0 = Parsed sc"
    using example_parse_line0 by blast
  show ?thesis
    by (intro conjI example_short_line_skipped a l f b c' l2 f2 b2 c2' p w)
qed

theorem declared_waypoint_count_ignored_witness:
  "split_sep (CHR 0x09) (strip example_line0_declared7)
     = (split_sep (CHR 0x09) (strip example_line0))[9 := ''7'']
   \<and> py_int (split_sep (CHR 0x09) (strip example_line0) ! 9) = Inr 1
   \<and> py_int ''7'' = Inr 7
   \<and> parse_line example_line0 = Parsed example_agent0
   \<and> num_waypoints example_agent0 = 1
   \<and> waypoints example_agent0 = [(2, 2)]
   \<and> parse_line example_line0_declared7 = Parsed (example_agent0\<lparr>num_waypoints := 7\<rparr>)
   \<and> waypoints (example_agent0\<lparr>num_waypoints := 7\<rparr>) = [(2, 2)]"
proof -
  have h1: "split_sep (CHR 0x09) (strip example_line0_declared7)
     = (split_sep (CHR 0x09) (strip example_line0))[9 := ''7'']"
    by (simp add: example_line0_declared7_fields example_line0_fields)
  have h2: "length (split_sep (CHR 0x09) (strip example_line0)) \<ge> 10"
    by (simp add: example_line0_fields)
  have h3: "py_int (split_sep (CHR 0x09) (strip example_line0) ! 9) = Inr 1"
    by (simp add: example_line0_fields py_int_digit)
  have h4: "py_int ''7'' = Inr 7" by (rule example_line0_declared7_fields)
  from declared_waypoint_count_ignored [OF h1 h2 h3 h4] example_parse_line0
  have a: "parse_line example_line0_declared7 = Parsed (example_agent0\<lparr>num_waypoints := 7\<rparr>)"
    by simp
  have b: "num_waypoints example_agent0 = 1" "waypoints example_agent0 = [(2, 2)]"
    "waypoints (example_agent0\<lparr>num_waypoints := 7\<rparr>) = [(2, 2)]"
    by (simp_all add: example_agent0_def)
  show ?thesis
    by (intro conjI h1 h3 h4 example_parse_line0 a b)
qed

subsection \<open>Number literals\<close>

text \<open>\<open>int()\<close> and \<open>float()\<close> do not skip the separators that \<open>str.strip\<close> removes, and \<open>int()\<close>
  refuses a literal with more digits than the limit.\<close>

lemma separator_before_number:
  "strip [CHR 0x1C, CHR ''7''] = ''7''"
  "py_int [CHR 0x1C, CHR ''7''] = Inl (ValueError [CHR 0x1C, CHR ''7''])"
  "py_float [CHR 0x1F, CHR ''0''] = Inl (ValueError [CHR 0x1F, CHR ''0''])"
  "py_int ([CHR 0x0B] @ ''7 '') = Inr 7"
  by (simp_all add: strip_def py_isspace_def py_int_def py_float_def c_strip_def c_isspace_def
      drop_sign_def is_digit_def digits_value_def digit_val_def int_max_str_digits_def
      float_number_def is_e_def to_lower_def Let_def)

lemma py_int_digit_limit:
  assumes "length (filter is_digit (snd (drop_sign (c_strip s)))) > 4300"
  shows "py_int s = Inl (ValueError s)"
  using assms by (auto simp: py_int_def int_max_str_digits_def split: prod.splits)

end
